theory Spec2Isabelle
  imports Main
begin

section \<open>Data model: the rows of the three tables\<close>

text \<open>
  The enums and rows of \<^verbatim>\<open>Database["public"]\<close>. A JavaScript \<^verbatim>\<open>number\<close> that holds an
  integer column is an \<^typ>\<open>int\<close>, a nullable column is an \<^typ>\<open>'a option\<close>. Columns that
  several tables share (\<^verbatim>\<open>id\<close>, \<^verbatim>\<open>game_id\<close>, \<^verbatim>\<open>created_at\<close>) carry the table's initial.
\<close>

datatype game_status = waiting | in_progress | finished

datatype player_role = mr_x | detective

datatype transport_type = taxi | bus | underground | black

record games_row =
  g_created_at :: string
  current_turn :: int
  g_id :: string
  mr_x_player :: "string option"
  name :: string
  status :: game_status
  updated_at :: string
  winner :: "string option"

text \<open>
  A row of \<^verbatim>\<open>moves\<close> as \<^verbatim>\<open>handleMove\<close> supplies it; \<^verbatim>\<open>id\<close> and \<^verbatim>\<open>created_at\<close> are
  filled in by the store and no code of the component reads them.
\<close>

record moves_row =
  m_game_id :: string
  player_id :: string
  from_position :: int
  to_position :: int
  transport :: transport_type
  turn_number :: int
  revealed :: bool

record players_row =
  black_tickets :: int
  bus_tickets :: int
  p_created_at :: string
  current_position :: int
  p_game_id :: string
  p_id :: string
  is_active :: bool
  role :: player_role
  taxi_tickets :: int
  underground_tickets :: int
  user_id :: string

section \<open>JavaScript primitives used by the component\<close>

text \<open>
  \<^verbatim>\<open>a % b\<close> on integers truncates towards zero: the result has the sign of \<open>a\<close>.
  For \<open>b = 0\<close> JavaScript yields \<^verbatim>\<open>NaN\<close>; the one place where the divisor can be
  zero (\<^verbatim>\<open>currentTurnIndex\<close>) treats that case itself.
\<close>

definition js_rem :: "int \<Rightarrow> int \<Rightarrow> int" where
  "js_rem a b = sgn a * (\<bar>a\<bar> mod \<bar>b\<bar>)"

text \<open>
  \<^verbatim>\<open>a.localeCompare(b)\<close> is the collation of the platform the component runs on (negative,
  zero or positive); it is no code of the component, and the definitions that call it
  take it as their first argument.

  \<^verbatim>\<open>Array.prototype.sort(cmp)\<close> is a stable sort: \<open>b\<close> moves in front of \<open>a\<close> only when
  \<open>cmp a b > 0\<close>. Insertion from the right keeps equal elements in their order.
\<close>

fun insert_by :: "('a \<Rightarrow> 'a \<Rightarrow> int) \<Rightarrow> 'a \<Rightarrow> 'a list \<Rightarrow> 'a list" where
  "insert_by cmp x [] = [x]"
| "insert_by cmp x (y # ys) =
     (if cmp x y \<le> 0 then x # y # ys else y # insert_by cmp x ys)"

fun sort_by :: "('a \<Rightarrow> 'a \<Rightarrow> int) \<Rightarrow> 'a list \<Rightarrow> 'a list" where
  "sort_by cmp [] = []"
| "sort_by cmp (x # xs) = insert_by cmp x (sort_by cmp xs)"

text \<open>
  An array read \<^verbatim>\<open>xs[i]\<close>: \<^verbatim>\<open>undefined\<close> (\<open>None\<close>) when the index is \<^verbatim>\<open>NaN\<close> (\<open>None\<close>),
  negative or past the end.
\<close>

definition at_index :: "'a list \<Rightarrow> int option \<Rightarrow> 'a option" where
  "at_index xs i =
     (case i of
        None \<Rightarrow> None
      | Some j \<Rightarrow> if 0 \<le> j \<and> j < int (length xs) then Some (xs ! nat j) else None)"

section \<open>Turn logic\<close>

text \<open>
  \<^verbatim>\<open>current_turn % sortedPlayers.length\<close>, written the same way in the render body and in
  \<^verbatim>\<open>handleMove\<close>; \<open>None\<close> is \<^verbatim>\<open>NaN\<close> (empty roster).
\<close>

definition currentTurnIndex :: "int \<Rightarrow> nat \<Rightarrow> int option" where
  "currentTurnIndex turn n = (if n = 0 then None else Some (js_rem turn (int n)))"

text \<open>\<^verbatim>\<open>const activePlayer = sortedPlayers[currentTurnIndex]\<close>.\<close>

definition activePlayer :: "players_row list \<Rightarrow> int \<Rightarrow> players_row option" where
  "activePlayer sortedPlayers turn =
     at_index sortedPlayers (currentTurnIndex turn (length sortedPlayers))"

text \<open>
  The render body sorts its copy of the \<^verbatim>\<open>players\<close> state by \<^verbatim>\<open>created_at\<close>;
  \<^verbatim>\<open>handleMove\<close> copies the rows it fetched and keeps the order of the fetch.
\<close>

definition sortedPlayers_render ::
    "(string \<Rightarrow> string \<Rightarrow> int) \<Rightarrow> players_row list \<Rightarrow> players_row list" where
  "sortedPlayers_render localeCompare players =
     sort_by (\<lambda>a b. localeCompare (p_created_at a) (p_created_at b)) players"

definition sortedPlayers_handleMove :: "players_row list \<Rightarrow> players_row list" where
  "sortedPlayers_handleMove latestPlayers = latestPlayers"

definition activePlayer_render ::
    "(string \<Rightarrow> string \<Rightarrow> int) \<Rightarrow> games_row \<Rightarrow> players_row list \<Rightarrow> players_row option" where
  "activePlayer_render localeCompare game players =
     activePlayer (sortedPlayers_render localeCompare players) (current_turn game)"

text \<open>
  \<^verbatim>\<open>isMyTurn\<close>: \<^verbatim>\<open>&&\<close> does not read \<^verbatim>\<open>activePlayer.id\<close> unless the game is in progress;
  reading it from \<^verbatim>\<open>undefined\<close> throws (\<open>None\<close>).
\<close>

definition isMyTurn ::
    "(string \<Rightarrow> string \<Rightarrow> int) \<Rightarrow> games_row \<Rightarrow> players_row list \<Rightarrow> players_row
       \<Rightarrow> bool option" where
  "isMyTurn localeCompare game players currentPlayer =
     (if status game \<noteq> in_progress then Some False
      else (case activePlayer_render localeCompare game players of
              None \<Rightarrow> None
            | Some ap \<Rightarrow> Some (p_id currentPlayer = p_id ap)))"

text \<open>\<^verbatim>\<open>isMrXRevealTurn\<close> of the render body, as a function of \<^verbatim>\<open>game.current_turn\<close>.\<close>

definition isMrXRevealTurn :: "int \<Rightarrow> bool" where
  "isMrXRevealTurn turn = (js_rem turn 3 = 0 \<or> turn = 1)"

definition showMrX :: "games_row \<Rightarrow> players_row \<Rightarrow> bool" where
  "showMrX game currentPlayer =
     (role currentPlayer = mr_x \<or> isMrXRevealTurn (current_turn game))"

section \<open>Ticket fields\<close>

text \<open>\<^verbatim>\<open>currentPlayer[`${transport}_tickets`]\<close> and the computed key of \<^verbatim>\<open>updates\<close>.\<close>

fun ticketField :: "transport_type \<Rightarrow> players_row \<Rightarrow> int" where
  "ticketField taxi p = taxi_tickets p"
| "ticketField bus p = bus_tickets p"
| "ticketField underground p = underground_tickets p"
| "ticketField black p = black_tickets p"

fun set_ticketField :: "transport_type \<Rightarrow> int \<Rightarrow> players_row \<Rightarrow> players_row" where
  "set_ticketField taxi v p = p\<lparr>taxi_tickets := v\<rparr>"
| "set_ticketField bus v p = p\<lparr>bus_tickets := v\<rparr>"
| "set_ticketField underground v p = p\<lparr>underground_tickets := v\<rparr>"
| "set_ticketField black v p = p\<lparr>black_tickets := v\<rparr>"

section \<open>The store and its requests\<close>

text \<open>
  The remote store holds the three tables. The \<^verbatim>\<open>players\<close> and \<^verbatim>\<open>moves\<close> tables are kept
  as lists in the store's own ascending \<^verbatim>\<open>created_at\<close> order (the store compares the
  instants, not their strings), so that a select with
  \<^verbatim>\<open>.order('created_at', { ascending: true })\<close> is a filter. Every awaited request
  resolves to a result and does not throw; the flag \<open>ok\<close> says whether the request was
  served (\<^verbatim>\<open>error\<close> is null) or failed (\<^verbatim>\<open>data\<close> is null, nothing written).
\<close>

record store =
  tbl_games :: "games_row list"
  tbl_players :: "players_row list"
  tbl_moves :: "moves_row list"

text \<open>\<^verbatim>\<open>.from('games').select('*').eq('id', gameId).single()\<close>: one row exactly, or no data.\<close>

definition select_game_single :: "bool \<Rightarrow> store \<Rightarrow> string \<Rightarrow> games_row option" where
  "select_game_single ok db gameId =
     (if ok then
        (case filter (\<lambda>g. g_id g = gameId) (tbl_games db) of
           [g] \<Rightarrow> Some g
         | _ \<Rightarrow> None)
      else None)"

definition select_players :: "bool \<Rightarrow> store \<Rightarrow> string \<Rightarrow> players_row list option" where
  "select_players ok db gameId =
     (if ok then Some (filter (\<lambda>p. p_game_id p = gameId) (tbl_players db)) else None)"

definition select_moves :: "bool \<Rightarrow> store \<Rightarrow> string \<Rightarrow> moves_row list option" where
  "select_moves ok db gameId =
     (if ok then Some (filter (\<lambda>m. m_game_id m = gameId) (tbl_moves db)) else None)"

definition insert_moves :: "bool \<Rightarrow> moves_row \<Rightarrow> store \<Rightarrow> store" where
  "insert_moves ok m db = (if ok then db\<lparr>tbl_moves := tbl_moves db @ [m]\<rparr> else db)"

text \<open>\<^verbatim>\<open>.update(patch).eq('id', id)\<close>: the patch goes to every row with that id, and to no other.\<close>

definition update_players ::
    "bool \<Rightarrow> (players_row \<Rightarrow> players_row) \<Rightarrow> string \<Rightarrow> store \<Rightarrow> store" where
  "update_players ok patch pid db =
     (if ok then db\<lparr>tbl_players := map (\<lambda>p. if p_id p = pid then patch p else p) (tbl_players db)\<rparr>
      else db)"

definition update_games ::
    "bool \<Rightarrow> (games_row \<Rightarrow> games_row) \<Rightarrow> string \<Rightarrow> store \<Rightarrow> store" where
  "update_games ok patch gameId db =
     (if ok then db\<lparr>tbl_games := map (\<lambda>g. if g_id g = gameId then patch g else g) (tbl_games db)\<rparr>
      else db)"

section \<open>The component: state, refresh, move, start\<close>

text \<open>The \<^verbatim>\<open>useState\<close> cells of \<^verbatim>\<open>GameBoard\<close>.\<close>

record ui_state =
  game :: "games_row option"
  players :: "players_row list"
  currentPlayer :: "players_row option"
  moves :: "moves_row list"
  selectedTransport :: "transport_type option"
  availableMoves :: "int list"

text \<open>What the user is told: one constructor per \<^verbatim>\<open>toast\<close> call, \<open>NoToast\<close> for a silent return.\<close>

datatype toast =
    NoToast
  | CouldNotLoadGame
  | CouldNotLoadPlayers
  | NotYourTurn
  | NoTicketsLeft
  | MoveCompleted
  | FailedToMakeMove
  | NeedTwoPlayers
  | GameStarted

text \<open>How the store answers the awaited requests of one call of \<^verbatim>\<open>handleMove\<close>, in order.\<close>

record net =
  ok_game :: bool
  ok_players :: bool
  ok_insert :: bool
  ok_player_update :: bool
  ok_turn_update :: bool
  ok_refresh_game :: bool
  ok_refresh_players :: bool
  ok_refresh_moves :: bool

text \<open>\<^verbatim>\<open>fetchGameData\<close>: each cell is replaced only when its request returned data.\<close>

definition fetchGameData ::
    "string \<Rightarrow> string \<Rightarrow> bool \<Rightarrow> bool \<Rightarrow> bool \<Rightarrow> store \<Rightarrow> ui_state \<Rightarrow> ui_state" where
  "fetchGameData gameId userId okG okP okM db ui =
     (let ui1 = (case select_game_single okG db gameId of
                   Some g \<Rightarrow> ui\<lparr>game := Some g\<rparr>
                 | None \<Rightarrow> ui);
          ui2 = (case select_players okP db gameId of
                   Some ps \<Rightarrow> ui1\<lparr>players := ps,
                                  currentPlayer := find (\<lambda>p. user_id p = userId) ps\<rparr>
                 | None \<Rightarrow> ui1)
      in (case select_moves okM db gameId of
            Some ms \<Rightarrow> ui2\<lparr>moves := ms\<rparr>
          | None \<Rightarrow> ui2))"

text \<open>
  The values that \<^verbatim>\<open>handleMove\<close> holds in local variables once both checks have passed.
\<close>

record validated =
  v_currentPlayer :: players_row
  v_tempTransport :: transport_type
  v_latestGame :: games_row
  v_currentTickets :: int

text \<open>
  \<^verbatim>\<open>handleMove\<close> up to the ticket check. \<open>Inl\<close> is a return before any write, with
  its toast and the cells as they are left; reading \<^verbatim>\<open>activePlayer.id\<close> from
  \<^verbatim>\<open>undefined\<close> throws inside \<^verbatim>\<open>try\<close> and ends in the \<^verbatim>\<open>catch\<close> block.
\<close>

definition handleMove_validate ::
    "string \<Rightarrow> net \<Rightarrow> ui_state \<Rightarrow> store \<Rightarrow> (toast \<times> ui_state) + (validated \<times> ui_state)" where
  "handleMove_validate gameId net ui db =
     (case currentPlayer ui of
        None \<Rightarrow> Inl (NoToast, ui)
      | Some cp \<Rightarrow>
     (case selectedTransport ui of
        None \<Rightarrow> Inl (NoToast, ui)
      | Some tempTransport \<Rightarrow>
     (case game ui of
        None \<Rightarrow> Inl (NoToast, ui)
      | Some _ \<Rightarrow>
     (let ui1 = ui\<lparr>selectedTransport := None, availableMoves := []\<rparr> in
     (case select_game_single (ok_game net) db gameId of
        None \<Rightarrow> Inl (CouldNotLoadGame, ui1\<lparr>selectedTransport := Some tempTransport\<rparr>)
      | Some latestGame \<Rightarrow>
     (case select_players (ok_players net) db gameId of
        None \<Rightarrow> Inl (CouldNotLoadPlayers, ui1\<lparr>selectedTransport := Some tempTransport\<rparr>)
      | Some latestPlayers \<Rightarrow>
     (case activePlayer (sortedPlayers_handleMove latestPlayers) (current_turn latestGame) of
        None \<Rightarrow> Inl (FailedToMakeMove, ui1\<lparr>selectedTransport := Some tempTransport\<rparr>)
      | Some ap \<Rightarrow>
          if p_id cp \<noteq> p_id ap then Inl (NotYourTurn, ui1)
          else
            let currentTickets = ticketField tempTransport cp in
            if currentTickets \<le> 0
            then Inl (NoTicketsLeft, ui1\<lparr>selectedTransport := Some tempTransport\<rparr>)
            else Inr (\<lparr>v_currentPlayer = cp, v_tempTransport = tempTransport,
                       v_latestGame = latestGame, v_currentTickets = currentTickets\<rparr>,
                      ui1))))))))"

text \<open>The record passed to \<^verbatim>\<open>.from('moves').insert\<close>.\<close>

definition move_record :: "string \<Rightarrow> int \<Rightarrow> validated \<Rightarrow> moves_row" where
  "move_record gameId toPosition v =
     \<lparr>m_game_id = gameId,
      player_id = p_id (v_currentPlayer v),
      from_position = current_position (v_currentPlayer v),
      to_position = toPosition,
      transport = v_tempTransport v,
      turn_number = current_turn (v_latestGame v),
      revealed = (role (v_currentPlayer v) = mr_x \<and>
                  (js_rem (current_turn (v_latestGame v)) 3 = 0 \<or>
                   current_turn (v_latestGame v) = 1))\<rparr>"

text \<open>The \<^verbatim>\<open>updates\<close> object applied to a \<^verbatim>\<open>players\<close> row.\<close>

definition updates :: "int \<Rightarrow> validated \<Rightarrow> players_row \<Rightarrow> players_row" where
  "updates toPosition v p =
     set_ticketField (v_tempTransport v) (v_currentTickets v - 1)
       (p\<lparr>current_position := toPosition\<rparr>)"

text \<open>
  The three writes of \<^verbatim>\<open>handleMove\<close>. The results of the first two awaits are dropped;
  only the \<^verbatim>\<open>error\<close> of the third is read, thrown and caught.
\<close>

definition handleMove_commit ::
    "string \<Rightarrow> string \<Rightarrow> net \<Rightarrow> int \<Rightarrow> validated \<Rightarrow> ui_state \<Rightarrow> store
       \<Rightarrow> toast \<times> ui_state \<times> store" where
  "handleMove_commit gameId userId net toPosition v ui db =
     (let db1 = insert_moves (ok_insert net) (move_record gameId toPosition v) db;
          db2 = update_players (ok_player_update net) (updates toPosition v)
                  (p_id (v_currentPlayer v)) db1;
          db3 = update_games (ok_turn_update net)
                  (\<lambda>g. g\<lparr>current_turn := current_turn (v_latestGame v) + 1\<rparr>) gameId db2
      in if \<not> ok_turn_update net
         then (FailedToMakeMove, ui\<lparr>selectedTransport := Some (v_tempTransport v)\<rparr>, db3)
         else (MoveCompleted,
               fetchGameData gameId userId (ok_refresh_game net) (ok_refresh_players net)
                 (ok_refresh_moves net) db3 ui,
               db3))"

text \<open>\<^verbatim>\<open>handleMove\<close> run against one state of the store, no other client writing meanwhile.\<close>

definition handleMove ::
    "string \<Rightarrow> string \<Rightarrow> net \<Rightarrow> int \<Rightarrow> ui_state \<Rightarrow> store \<Rightarrow> toast \<times> ui_state \<times> store" where
  "handleMove gameId userId net toPosition ui db =
     (case handleMove_validate gameId net ui db of
        Inl (t, ui') \<Rightarrow> (t, ui', db)
      | Inr (v, ui') \<Rightarrow> handleMove_commit gameId userId net toPosition v ui' db)"

text \<open>\<^verbatim>\<open>startGame\<close>: the result of the update is not read.\<close>

definition startGame :: "string \<Rightarrow> bool \<Rightarrow> ui_state \<Rightarrow> store \<Rightarrow> toast \<times> store" where
  "startGame gameId ok ui db =
     (if length (players ui) < 2 then (NeedTwoPlayers, db)
      else (GameStarted, update_games ok (\<lambda>g. g\<lparr>status := in_progress\<rparr>) gameId db))"

text \<open>
  Whether the render shows the Start Game button: past the Loading return, with the
  game waiting and the viewer its \<^verbatim>\<open>mr_x_player\<close>. The player list of the same render
  reads \<^verbatim>\<open>activePlayer.id\<close> once per player, so a render with players and no active
  player throws and shows nothing.
\<close>

definition startGameButton :: "(string \<Rightarrow> string \<Rightarrow> int) \<Rightarrow> string \<Rightarrow> ui_state \<Rightarrow> bool" where
  "startGameButton localeCompare userId ui =
     (case game ui of
        None \<Rightarrow> False
      | Some g \<Rightarrow>
          currentPlayer ui \<noteq> None \<and>
          (players ui = [] \<or> activePlayer_render localeCompare g (players ui) \<noteq> None) \<and>
          status g = waiting \<and> mr_x_player g = Some userId)"

text \<open>The start-game operation as a user can trigger it: a click on the button, if shown.\<close>

definition clickStartGame ::
    "(string \<Rightarrow> string \<Rightarrow> int) \<Rightarrow> string \<Rightarrow> string \<Rightarrow> bool \<Rightarrow> ui_state \<Rightarrow> store
       \<Rightarrow> toast \<times> store" where
  "clickStartGame localeCompare gameId userId ok ui db =
     (if startGameButton localeCompare userId ui then startGame gameId ok ui db
      else (NoToast, db))"

section \<open>A two-player game, for running the definitions\<close>

text \<open>
  The evader A joined first, the seeker B second; \<open>game_at n\<close> is their game with the
  turn counter at \<open>n\<close>, \<open>ui_of p n\<close> the component of player \<open>p\<close> showing it with the
  taxi selected, \<open>net_ok\<close> a store that serves every request.
\<close>

definition playerA :: players_row where
  "playerA = \<lparr>black_tickets = 5, bus_tickets = 3, p_created_at = ''2024-01-01T10:00:00'',
     current_position = 10, p_game_id = ''g1'', p_id = ''A'', is_active = True, role = mr_x,
     taxi_tickets = 4, underground_tickets = 3, user_id = ''uA''\<rparr>"

definition playerB :: players_row where
  "playerB = \<lparr>black_tickets = 0, bus_tickets = 8, p_created_at = ''2024-01-01T10:05:00'',
     current_position = 20, p_game_id = ''g1'', p_id = ''B'', is_active = True, role = detective,
     taxi_tickets = 10, underground_tickets = 4, user_id = ''uB''\<rparr>"

definition game_at :: "int \<Rightarrow> games_row" where
  "game_at n = \<lparr>g_created_at = ''2024-01-01T09:59:00'', current_turn = n, g_id = ''g1'',
     mr_x_player = Some ''uA'', name = ''chase'', status = in_progress,
     updated_at = ''2024-01-01T09:59:00'', winner = None\<rparr>"

definition store_at :: "int \<Rightarrow> store" where
  "store_at n = \<lparr>tbl_games = [game_at n], tbl_players = [playerA, playerB], tbl_moves = []\<rparr>"

definition ui_of :: "players_row \<Rightarrow> int \<Rightarrow> ui_state" where
  "ui_of p n = \<lparr>game = Some (game_at n), players = [playerA, playerB], currentPlayer = Some p,
     moves = [], selectedTransport = Some taxi, availableMoves = [15, 16]\<rparr>"

definition net_ok :: net where
  "net_ok = \<lparr>ok_game = True, ok_players = True, ok_insert = True, ok_player_update = True,
     ok_turn_update = True, ok_refresh_game = True, ok_refresh_players = True,
     ok_refresh_moves = True\<rparr>"

text \<open>
  The collation of the platform in the runs below, on timestamps: the root collation
  compares two strings by the weights of their characters from the left, a proper prefix
  first, and the characters of a timestamp ascend in weight as
  \<^verbatim>\<open>- : . + 0 1 2 3 4 5 6 7 8 9 T Z\<close> (punctuation, then symbols, then digits, then
  letters). No other character occurs in a \<^verbatim>\<open>created_at\<close> of the runs.
\<close>

definition timestamp_alphabet :: string where
  "timestamp_alphabet = ''-:.+0123456789TZ''"

fun collation_weight :: "string \<Rightarrow> char \<Rightarrow> nat" where
  "collation_weight [] c = 0"
| "collation_weight (a # alphabet) c = (if a = c then 0 else Suc (collation_weight alphabet c))"

fun collate :: "string \<Rightarrow> string \<Rightarrow> int" where
  "collate [] [] = 0"
| "collate [] (y # ys) = - 1"
| "collate (x # xs) [] = 1"
| "collate (x # xs) (y # ys) =
     (if collation_weight timestamp_alphabet x < collation_weight timestamp_alphabet y then - 1
      else if collation_weight timestamp_alphabet y < collation_weight timestamp_alphabet x then 1
      else collate xs ys)"

text \<open>
  The same two players when A joined on a full second and B half a second later, as the
  store reports the two instants. The store orders A before B; \<open>ui_joined p\<close> is the
  component of player \<open>p\<close> after it fetched the game at turn 0, with the taxi selected.
\<close>

definition playerA_second :: players_row where
  "playerA_second = playerA\<lparr>p_created_at := ''2024-01-01T10:00:00+00:00''\<rparr>"

definition playerB_fraction :: players_row where
  "playerB_fraction = playerB\<lparr>p_created_at := ''2024-01-01T10:00:00.5+00:00''\<rparr>"

definition store_joined :: store where
  "store_joined = \<lparr>tbl_games = [game_at 0], tbl_players = [playerA_second, playerB_fraction],
     tbl_moves = []\<rparr>"

definition ui_joined :: "players_row \<Rightarrow> ui_state" where
  "ui_joined p = \<lparr>game = Some (game_at 0), players = [playerA_second, playerB_fraction],
     currentPlayer = Some p, moves = [], selectedTransport = Some taxi,
     availableMoves = [21, 22]\<rparr>"

text \<open>
  A store that has moved on since the component last fetched: the row of A now stands at
  node 12 and has no taxi ticket left.
\<close>

definition playerA_stored :: players_row where
  "playerA_stored = playerA\<lparr>current_position := 12, taxi_tickets := 0\<rparr>"

definition store_stale :: store where
  "store_stale = \<lparr>tbl_games = [game_at 0], tbl_players = [playerA_stored, playerB], tbl_moves = []\<rparr>"

text \<open>
  A store in which the row of A has no underground ticket left, while the component of A
  still holds the record with 3 of them and has the underground selected.
\<close>

definition playerA_spent :: players_row where
  "playerA_spent = playerA\<lparr>underground_tickets := 0\<rparr>"

definition store_spent :: store where
  "store_spent = \<lparr>tbl_games = [game_at 0], tbl_players = [playerA_spent, playerB], tbl_moves = []\<rparr>"

definition ui_underground :: ui_state where
  "ui_underground = (ui_of playerA 0)\<lparr>selectedTransport := Some underground\<rparr>"

text \<open>
  A store that rejects the insert and the update of \<^verbatim>\<open>players\<close> and serves the rest.
\<close>

definition net_only_turn_update :: net where
  "net_only_turn_update = net_ok\<lparr>ok_insert := False, ok_player_update := False\<rparr>"

text \<open>
  Two components of player A (two tabs) at turn 4. Both run \<^verbatim>\<open>handleMove\<close> up to the
  ticket check against the same store and hold \<open>v_race\<close>; then the first performs its
  three writes, and the second performs its own on the store the first has left.
\<close>

definition v_race :: validated where
  "v_race = \<lparr>v_currentPlayer = playerA, v_tempTransport = taxi, v_latestGame = game_at 4,
     v_currentTickets = 4\<rparr>"

definition ui_race :: ui_state where
  "ui_race = (ui_of playerA 4)\<lparr>selectedTransport := None, availableMoves := []\<rparr>"

definition race_first :: "toast \<times> ui_state \<times> store" where
  "race_first = handleMove_commit ''g1'' ''uA'' net_ok 15 v_race ui_race (store_at 4)"

definition race_second :: "toast \<times> ui_state \<times> store" where
  "race_second = handleMove_commit ''g1'' ''uA'' net_ok 16 v_race ui_race (snd (snd race_first))"

text \<open>A store that serves every request but the update of \<^verbatim>\<open>games\<close>.\<close>

definition net_turn_update_fails :: net where
  "net_turn_update_fails = net_ok\<lparr>ok_turn_update := False\<rparr>"

text \<open>The game before its start, as the component of A, its \<^verbatim>\<open>mr_x_player\<close>, shows it.\<close>

definition game_waiting :: games_row where
  "game_waiting = (game_at 0)\<lparr>status := waiting\<rparr>"

definition store_waiting :: store where
  "store_waiting = \<lparr>tbl_games = [game_waiting], tbl_players = [playerA, playerB], tbl_moves = []\<rparr>"

definition ui_waiting :: ui_state where
  "ui_waiting = \<lparr>game = Some game_waiting, players = [playerA, playerB],
     currentPlayer = Some playerA, moves = [], selectedTransport = None, availableMoves = []\<rparr>"

text \<open>A store in which that game has ended since the component fetched it.\<close>

definition store_finished :: store where
  "store_finished = \<lparr>tbl_games = [game_waiting\<lparr>status := finished\<rparr>],
     tbl_players = [playerA, playerB], tbl_moves = []\<rparr>"

section \<open>Properties of the turn logic\<close>

lemma js_rem_nonneg: "0 \<le> a \<Longrightarrow> 0 < b \<Longrightarrow> js_rem a b = a mod b"
  by (cases "a = 0") (simp_all add: js_rem_def)

lemma js_rem_3_zero: "js_rem a 3 = 0 \<longleftrightarrow> a mod 3 = 0"
proof -
  have "js_rem a 3 = 0 \<longleftrightarrow> \<bar>a\<bar> mod 3 = 0"
    by (auto simp: js_rem_def sgn_if)
  also have "\<dots> \<longleftrightarrow> a mod 3 = 0"
    by presburger
  finally show ?thesis .
qed

lemma length_insert_by: "length (insert_by cmp x xs) = Suc (length xs)"
  by (induction xs) auto

lemma length_sort_by: "length (sort_by cmp xs) = length xs"
  by (induction xs) (auto simp: length_insert_by)

lemma sort_by_sorted: "sorted_wrt (\<lambda>a b. cmp a b \<le> 0) xs \<Longrightarrow> sort_by cmp xs = xs"
proof (induction xs)
  case Nil
  then show ?case by simp
next
  case (Cons x xs)
  then have "sort_by cmp xs = xs" by simp
  moreover have "insert_by cmp x xs = x # xs"
    using Cons.prems by (cases xs) auto
  ultimately show ?case by simp
qed

lemma activePlayer_nonempty:
  assumes "roster \<noteq> []" and "0 \<le> t"
  shows "activePlayer roster t = Some (roster ! nat (t mod int (length roster)))"
  using assms by (simp add: activePlayer_def currentTurnIndex_def at_index_def js_rem_nonneg)

lemma select_game_single_Some:
  "select_game_single ok db gameId = Some g \<Longrightarrow>
     ok \<and> filter (\<lambda>g. g_id g = gameId) (tbl_games db) = [g]"
  by (auto simp: select_game_single_def split: if_splits list.splits)

lemma handleMove_validate_Inr:
  assumes "handleMove_validate gameId net ui db = Inr (v, ui1)"
  shows "currentPlayer ui = Some (v_currentPlayer v)"
    and "selectedTransport ui = Some (v_tempTransport v)"
    and "game ui \<noteq> None"
    and "select_game_single (ok_game net) db gameId = Some (v_latestGame v)"
    and "\<exists>ps ap. select_players (ok_players net) db gameId = Some ps \<and>
           activePlayer (sortedPlayers_handleMove ps) (current_turn (v_latestGame v)) = Some ap \<and>
           p_id (v_currentPlayer v) = p_id ap"
    and "v_currentTickets v = ticketField (v_tempTransport v) (v_currentPlayer v)"
    and "0 < v_currentTickets v"
    and "ui1 = ui\<lparr>selectedTransport := None, availableMoves := []\<rparr>"
  using assms
  by (auto simp: handleMove_validate_def Let_def split: option.splits if_splits)

lemma handleMove_validate_Inl:
  assumes "handleMove_validate gameId net ui db = Inl (t, ui1)"
  shows "t \<noteq> MoveCompleted"
  using assms
  by (auto simp: handleMove_validate_def Let_def split: option.splits if_splits)

lemma handleMove_validated:
  assumes "handleMove_validate gameId net ui db = Inr (v, ui1)"
  shows "handleMove gameId userId net toPosition ui db =
           handleMove_commit gameId userId net toPosition v ui1 db"
  using assms by (simp add: handleMove_def)

lemma commit_toast:
  "fst (handleMove_commit gameId userId net toPosition v ui db) =
     (if ok_turn_update net then MoveCompleted else FailedToMakeMove)"
  by (simp add: handleMove_commit_def Let_def)

lemma commit_moves:
  "tbl_moves (snd (snd (handleMove_commit gameId userId net toPosition v ui db))) =
     (if ok_insert net then tbl_moves db @ [move_record gameId toPosition v] else tbl_moves db)"
  by (simp add: handleMove_commit_def Let_def insert_moves_def update_players_def update_games_def)

lemma commit_players:
  "tbl_players (snd (snd (handleMove_commit gameId userId net toPosition v ui db))) =
     (if ok_player_update net
      then map (\<lambda>p. if p_id p = p_id (v_currentPlayer v) then updates toPosition v p else p)
             (tbl_players db)
      else tbl_players db)"
  by (simp add: handleMove_commit_def Let_def insert_moves_def update_players_def update_games_def)

lemma commit_games:
  "tbl_games (snd (snd (handleMove_commit gameId userId net toPosition v ui db))) =
     (if ok_turn_update net
      then map (\<lambda>g. if g_id g = gameId
                     then g\<lparr>current_turn := current_turn (v_latestGame v) + 1\<rparr> else g)
             (tbl_games db)
      else tbl_games db)"
  by (simp add: handleMove_commit_def Let_def insert_moves_def update_players_def update_games_def)

lemma commit_ui_failed:
  "\<not> ok_turn_update net \<Longrightarrow>
     fst (snd (handleMove_commit gameId userId net toPosition v ui db)) =
       ui\<lparr>selectedTransport := Some (v_tempTransport v)\<rparr>"
  by (simp add: handleMove_commit_def Let_def)

lemma handleMove_cases:
  assumes "handleMove gameId userId net toPosition ui db = (t, ui', db')"
  obtains (rejected) "handleMove_validate gameId net ui db = Inl (t, ui')" and "db' = db"
    | (validated) v ui1 where "handleMove_validate gameId net ui db = Inr (v, ui1)"
        and "handleMove_commit gameId userId net toPosition v ui1 db = (t, ui', db')"
  using assms by (auto simp: handleMove_def split: sum.splits prod.splits)

section \<open>Evaluation on concrete states\<close>

lemmas run_defs = handleMove_def handleMove_validate_def handleMove_commit_def Let_def
  select_game_single_def select_players_def select_moves_def insert_moves_def update_players_def
  update_games_def fetchGameData_def activePlayer_def sortedPlayers_handleMove_def
  currentTurnIndex_def at_index_def move_record_def updates_def js_rem_def

lemmas scenario_defs = playerA_def playerB_def game_at_def store_at_def ui_of_def net_ok_def

section \<open>Claims\<close>

text \<open>
  C7. For a roster of length \<open>n \<ge> 1\<close> and a turn counter \<open>t \<ge> 0\<close> the active player is
  defined: the index is \<open>t mod n\<close>, it lies in \<open>[0, n)\<close>, and the result is the roster
  entry at that index, in \<^verbatim>\<open>handleMove\<close> and in the render body alike (there on the
  roster as the render body has sorted it, whatever the collation). On the empty roster
  there is no active player.
\<close>

theorem activePlayer_total:
  "(roster \<noteq> [] \<and> 0 \<le> t \<longrightarrow>
      currentTurnIndex t (length roster) = Some (t mod int (length roster)) \<and>
      0 \<le> t mod int (length roster) \<and>
      t mod int (length roster) < int (length roster) \<and>
      activePlayer roster t = Some (roster ! nat (t mod int (length roster))) \<and>
      activePlayer_render cmp (g\<lparr>current_turn := t\<rparr>) roster =
        Some (sortedPlayers_render cmp roster ! nat (t mod int (length roster)))) \<and>
   activePlayer [] t = None"
proof -
  have empty: "activePlayer [] t = None"
    by (simp add: activePlayer_def currentTurnIndex_def at_index_def)
  have nonempty: ?thesis if r: "roster \<noteq> []" and t: "0 \<le> t"
  proof -
    from r have n: "0 < int (length roster)" by simp
    have idx: "currentTurnIndex t (length roster) = Some (t mod int (length roster))"
      using r t by (simp add: currentTurnIndex_def js_rem_nonneg)
    have lo: "0 \<le> t mod int (length roster)"
      using n by simp
    have hi: "t mod int (length roster) < int (length roster)"
      using n by simp
    have len: "length (sortedPlayers_render cmp roster) = length roster"
      by (simp add: sortedPlayers_render_def length_sort_by)
    have sr: "sortedPlayers_render cmp roster \<noteq> []"
    proof
      assume "sortedPlayers_render cmp roster = []"
      then have "length (sortedPlayers_render cmp roster) = 0" by simp
      with len r show False by simp
    qed
    have rend: "activePlayer_render cmp (g\<lparr>current_turn := t\<rparr>) roster =
        Some (sortedPlayers_render cmp roster ! nat (t mod int (length roster)))"
      using activePlayer_nonempty [OF sr t] by (simp add: activePlayer_render_def len)
    show ?thesis
      using idx lo hi activePlayer_nonempty [OF r t] rend empty by simp
  qed
  show ?thesis
    using nonempty empty by blast
qed

text \<open>C7 at turn 5 of the two-player game: index 1, player B.\<close>

theorem activePlayer_total_witness:
  "[playerA, playerB] \<noteq> [] \<and> (0::int) \<le> 5 \<and>
   currentTurnIndex 5 (length [playerA, playerB]) = Some 1 \<and>
   activePlayer [playerA, playerB] 5 = Some playerB \<and>
   activePlayer_render collate (game_at 5) [playerA, playerB] = Some playerB"
  using activePlayer_total [of "[playerA, playerB]" 5 collate "game_at 5"]
  by (simp add: game_at_def sortedPlayers_render_def playerA_def playerB_def
      timestamp_alphabet_def)

text \<open>
  C1, as stated, fails at turn 0: \<open>0 mod 3 = 0\<close>, so turn 0 is a reveal turn, and the
  move that the evader commits at turn 0 is stored with \<^verbatim>\<open>revealed = true\<close>.
\<close>

theorem reveal_turn_zero_counterexample:
  "isMrXRevealTurn 0 \<and>
   map revealed (tbl_moves (snd (snd (handleMove ''g1'' ''uA'' net_ok 15 (ui_of playerA 0) (store_at 0))))) = [True]"
  by (simp add: isMrXRevealTurn_def run_defs scenario_defs)

text \<open>
  C1, amended. A turn number is a reveal turn exactly when it is 1 or a multiple of 3
  (turn 0 included). Whenever \<^verbatim>\<open>handleMove\<close> adds a move, it adds one move, whose
  \<^verbatim>\<open>revealed\<close> flag says that the turn counter of the stored game is a reveal turn
  and that the mover's role is \<^verbatim>\<open>mr_x\<close>.
\<close>

theorem reveal_schedule:
  "(isMrXRevealTurn turn \<longleftrightarrow> turn = 1 \<or> turn mod 3 = 0) \<and>
   (handleMove gameId userId net toPosition ui db = (t, ui', db') \<and> tbl_moves db' \<noteq> tbl_moves db \<longrightarrow>
      (\<exists>cp lg m. currentPlayer ui = Some cp \<and>
         select_game_single True db gameId = Some lg \<and>
         tbl_moves db' = tbl_moves db @ [m] \<and>
         revealed m = (isMrXRevealTurn (current_turn lg) \<and> role cp = mr_x)))"
proof -
  have sched: "isMrXRevealTurn turn \<longleftrightarrow> turn = 1 \<or> turn mod 3 = 0"
    by (auto simp: isMrXRevealTurn_def js_rem_3_zero)
  have mv: "\<exists>cp lg m. currentPlayer ui = Some cp \<and>
         select_game_single True db gameId = Some lg \<and>
         tbl_moves db' = tbl_moves db @ [m] \<and>
         revealed m = (isMrXRevealTurn (current_turn lg) \<and> role cp = mr_x)"
    if run: "handleMove gameId userId net toPosition ui db = (t, ui', db')"
      and ch: "tbl_moves db' \<noteq> tbl_moves db"
    using run
  proof (cases rule: handleMove_cases)
    case rejected
    with ch show ?thesis by simp
  next
    case (validated v ui1)
    let ?m = "move_record gameId toPosition v"
    have db': "db' = snd (snd (handleMove_commit gameId userId net toPosition v ui1 db))"
      using validated(2) by simp
    have mvs: "tbl_moves db' = tbl_moves db @ [?m]"
      using ch commit_moves [of gameId userId net toPosition v ui1 db] db'
      by (auto split: if_splits)
    have cp: "currentPlayer ui = Some (v_currentPlayer v)"
      by (rule handleMove_validate_Inr(1) [OF validated(1)])
    have "select_game_single (ok_game net) db gameId = Some (v_latestGame v)"
      by (rule handleMove_validate_Inr(4) [OF validated(1)])
    then have lg: "select_game_single True db gameId = Some (v_latestGame v)"
      by (auto simp: select_game_single_def split: if_splits)
    have rev: "revealed ?m =
        (isMrXRevealTurn (current_turn (v_latestGame v)) \<and> role (v_currentPlayer v) = mr_x)"
      by (auto simp: move_record_def isMrXRevealTurn_def)
    show ?thesis
      using cp lg mvs rev by blast
  qed
  show ?thesis
    using sched mv by blast
qed

text \<open>C1 at turn 6, the evader moving: a reveal turn, the move is revealed.\<close>

theorem reveal_schedule_witness:
  "handleMove ''g1'' ''uA'' net_ok 15 (ui_of playerA 6) (store_at 6) =
     (MoveCompleted, fst (snd (handleMove ''g1'' ''uA'' net_ok 15 (ui_of playerA 6) (store_at 6))),
      snd (snd (handleMove ''g1'' ''uA'' net_ok 15 (ui_of playerA 6) (store_at 6)))) \<and>
   tbl_moves (snd (snd (handleMove ''g1'' ''uA'' net_ok 15 (ui_of playerA 6) (store_at 6)))) \<noteq> tbl_moves (store_at 6) \<and>
   isMrXRevealTurn 6 \<and> \<not> isMrXRevealTurn 2 \<and>
   map revealed (tbl_moves (snd (snd (handleMove ''g1'' ''uA'' net_ok 15 (ui_of playerA 6) (store_at 6))))) = [True]"
  using reveal_schedule [of 6 "''g1''" "''uA''" net_ok 15 "ui_of playerA 6" "store_at 6" MoveCompleted]
        reveal_schedule [of 2]
  by (simp add: isMrXRevealTurn_def run_defs scenario_defs)

text \<open>
  The render body reorders two fetched rows exactly when the collation puts the second
  before the first; on rows that ascend under the collation it keeps the order of the
  fetch, which is the order \<^verbatim>\<open>handleMove\<close> uses.
\<close>

lemma sortedPlayers_render_two:
  "sortedPlayers_render cmp [a, b] =
     (if cmp (p_created_at a) (p_created_at b) \<le> 0 then [a, b] else [b, a])"
  by (simp add: sortedPlayers_render_def)

lemma sortedPlayers_render_ascending:
  assumes "sorted_wrt (\<lambda>a b. cmp (p_created_at a) (p_created_at b) \<le> 0) ps"
  shows "sortedPlayers_render cmp ps = sortedPlayers_handleMove ps"
  unfolding sortedPlayers_render_def sortedPlayers_handleMove_def
  using assms by (rule sort_by_sorted)

lemma collate_second_fraction:
  "collate ''2024-01-01T10:00:00+00:00'' ''2024-01-01T10:00:00.5+00:00'' = 1"
  by (simp add: timestamp_alphabet_def)

text \<open>
  C6 holds of the store's order and fails on the render body. A joined on a full second,
  B half a second later, and the fetch returns A, B. The collation puts the string of B,
  with its fraction, before the string of A, so the render body turns the roster round:
  at turn 0 it shows B as the active player and enables B's ticket buttons, not A's.
  \<^verbatim>\<open>handleMove\<close> keeps the order of the fetch and takes A for the active player: the
  move that B's component offers is rejected as not B's turn.
\<close>

theorem roster_order_differs_on_fractional_second:
  "select_players True store_joined ''g1'' = Some [playerA_second, playerB_fraction] \<and>
   sortedPlayers_render collate [playerA_second, playerB_fraction] =
     [playerB_fraction, playerA_second] \<and>
   sortedPlayers_handleMove [playerA_second, playerB_fraction] =
     [playerA_second, playerB_fraction] \<and>
   activePlayer_render collate (game_at 0) [playerA_second, playerB_fraction] =
     Some playerB_fraction \<and>
   activePlayer (sortedPlayers_handleMove [playerA_second, playerB_fraction])
     (current_turn (game_at 0)) = Some playerA_second \<and>
   isMyTurn collate (game_at 0) [playerA_second, playerB_fraction] playerB_fraction = Some True \<and>
   isMyTurn collate (game_at 0) [playerA_second, playerB_fraction] playerA_second = Some False \<and>
   fst (handleMove ''g1'' ''uB'' net_ok 21 (ui_joined playerB_fraction) store_joined) = NotYourTurn \<and>
   snd (snd (handleMove ''g1'' ''uB'' net_ok 21 (ui_joined playerB_fraction) store_joined)) =
     store_joined"
proof -
  have created: "p_created_at playerA_second = ''2024-01-01T10:00:00+00:00''"
    "p_created_at playerB_fraction = ''2024-01-01T10:00:00.5+00:00''"
    by (simp_all add: playerA_second_def playerB_fraction_def)
  have order: "sortedPlayers_render collate [playerA_second, playerB_fraction] =
      [playerB_fraction, playerA_second]"
    unfolding sortedPlayers_render_two created collate_second_fraction by simp
  have ids: "p_id playerA_second = ''A''" "p_id playerB_fraction = ''B''"
    by (simp_all add: playerA_second_def playerB_fraction_def playerA_def playerB_def)
  have render: "activePlayer_render collate (game_at 0) [playerA_second, playerB_fraction] =
      Some playerB_fraction"
    unfolding activePlayer_render_def order
    by (simp add: activePlayer_def currentTurnIndex_def at_index_def js_rem_def game_at_def)
  have commit: "activePlayer (sortedPlayers_handleMove [playerA_second, playerB_fraction])
      (current_turn (game_at 0)) = Some playerA_second"
    by (simp add: sortedPlayers_handleMove_def activePlayer_def currentTurnIndex_def at_index_def
        js_rem_def game_at_def)
  have st: "status (game_at 0) = in_progress"
    by (simp add: game_at_def)
  have mine: "isMyTurn collate (game_at 0) [playerA_second, playerB_fraction] playerB_fraction =
      Some True"
    "isMyTurn collate (game_at 0) [playerA_second, playerB_fraction] playerA_second = Some False"
    by (simp_all add: isMyTurn_def render st ids)
  have sel: "select_players True store_joined ''g1'' = Some [playerA_second, playerB_fraction]"
    by (simp add: select_players_def store_joined_def playerA_second_def playerB_fraction_def
        playerA_def playerB_def)
  have run: "handleMove ''g1'' ''uB'' net_ok 21 (ui_joined playerB_fraction) store_joined =
      (NotYourTurn, (ui_joined playerB_fraction)\<lparr>selectedTransport := None, availableMoves := []\<rparr>,
       store_joined)"
    by (simp add: run_defs scenario_defs store_joined_def ui_joined_def playerA_second_def
        playerB_fraction_def)
  show ?thesis
    using sel order render commit mine run by (simp add: sortedPlayers_handleMove_def)
qed

text \<open>
  An update that keeps the key of every row commutes with the select on that key.
\<close>

lemma filter_map_patch:
  assumes "\<And>x. P (f x) = P x"
  shows "filter P (map (\<lambda>x. if P x then f x else x) xs) = map f (filter P xs)"
  using assms by (induction xs) auto

lemma select_game_after_advance:
  assumes "select_game_single ok db gameId = Some lg"
  shows "select_game_single True
           (db\<lparr>tbl_games := map (\<lambda>g. if g_id g = gameId then g\<lparr>current_turn := n\<rparr> else g) (tbl_games db)\<rparr>)
           gameId = Some (lg\<lparr>current_turn := n\<rparr>)"
proof -
  have f: "filter (\<lambda>g. g_id g = gameId) (tbl_games db) = [lg]"
    using select_game_single_Some [OF assms] by simp
  have "filter (\<lambda>g. g_id g = gameId)
          (map (\<lambda>g. if g_id g = gameId then g\<lparr>current_turn := n\<rparr> else g) (tbl_games db)) =
        map (\<lambda>g. g\<lparr>current_turn := n\<rparr>) (filter (\<lambda>g. g_id g = gameId) (tbl_games db))"
    by (rule filter_map_patch) simp
  with f show ?thesis
    by (simp add: select_game_single_def)
qed

text \<open>
  C10. Once both checks have passed, each of the three writes takes effect exactly when
  its own request is served, whatever became of the others; the move is reported as
  completed exactly when the update of \<^verbatim>\<open>games\<close> returned no error, and then the stored
  game carries the fetched turn counter plus one.
\<close>

theorem commit_reported_by_turn_advance_only:
  assumes "handleMove_validate gameId net ui db = Inr (v, ui1)"
    and "handleMove gameId userId net toPosition ui db = (t, ui', db')"
  shows "(t = MoveCompleted \<longleftrightarrow> ok_turn_update net) \<and>
         (t = FailedToMakeMove \<longleftrightarrow> \<not> ok_turn_update net) \<and>
         tbl_moves db' =
           (if ok_insert net then tbl_moves db @ [move_record gameId toPosition v]
            else tbl_moves db) \<and>
         tbl_players db' =
           (if ok_player_update net
            then map (\<lambda>p. if p_id p = p_id (v_currentPlayer v) then updates toPosition v p else p)
                   (tbl_players db)
            else tbl_players db) \<and>
         (t = MoveCompleted \<longrightarrow>
            select_game_single True db' gameId =
              Some ((v_latestGame v)\<lparr>current_turn := current_turn (v_latestGame v) + 1\<rparr>))"
proof -
  let ?c = "handleMove_commit gameId userId net toPosition v ui1 db"
  have c: "?c = (t, ui', db')"
    using assms by (simp add: handleMove_validated)
  then have t: "t = fst ?c" and db': "db' = snd (snd ?c)"
    by simp_all
  have toast: "t = (if ok_turn_update net then MoveCompleted else FailedToMakeMove)"
    unfolding t by (rule commit_toast)
  have mv: "tbl_moves db' =
      (if ok_insert net then tbl_moves db @ [move_record gameId toPosition v] else tbl_moves db)"
    unfolding db' by (rule commit_moves)
  have pl: "tbl_players db' =
      (if ok_player_update net
       then map (\<lambda>p. if p_id p = p_id (v_currentPlayer v) then updates toPosition v p else p)
              (tbl_players db)
       else tbl_players db)"
    unfolding db' by (rule commit_players)
  have gm: "select_game_single True db' gameId =
      Some ((v_latestGame v)\<lparr>current_turn := current_turn (v_latestGame v) + 1\<rparr>)"
    if "t = MoveCompleted"
  proof -
    from that toast have ok: "ok_turn_update net"
      by (simp split: if_splits)
    have g: "tbl_games db' = map (\<lambda>g. if g_id g = gameId
                     then g\<lparr>current_turn := current_turn (v_latestGame v) + 1\<rparr> else g)
             (tbl_games db)"
      unfolding db' using ok by (simp add: commit_games)
    have "select_game_single True
           (db\<lparr>tbl_games := map (\<lambda>g. if g_id g = gameId
                     then g\<lparr>current_turn := current_turn (v_latestGame v) + 1\<rparr> else g) (tbl_games db)\<rparr>)
           gameId = Some ((v_latestGame v)\<lparr>current_turn := current_turn (v_latestGame v) + 1\<rparr>)"
      by (rule select_game_after_advance [OF handleMove_validate_Inr(4) [OF assms(1)]])
    then show ?thesis
      using g by (simp add: select_game_single_def)
  qed
  show ?thesis
    using toast mv pl gm by simp
qed

text \<open>
  C10 with the first two writes failing: no move stored, no ticket debited, the turn
  advanced, and the move reported as completed.
\<close>

theorem commit_reported_by_turn_advance_only_witness:
  "handleMove_validate ''g1'' net_only_turn_update (ui_of playerA 0) (store_at 0) =
     Inr (\<lparr>v_currentPlayer = playerA, v_tempTransport = taxi, v_latestGame = game_at 0,
           v_currentTickets = 4\<rparr>,
          (ui_of playerA 0)\<lparr>selectedTransport := None, availableMoves := []\<rparr>) \<and>
   fst (handleMove ''g1'' ''uA'' net_only_turn_update 15 (ui_of playerA 0) (store_at 0)) = MoveCompleted \<and>
   tbl_moves (snd (snd (handleMove ''g1'' ''uA'' net_only_turn_update 15 (ui_of playerA 0) (store_at 0)))) = [] \<and>
   tbl_players (snd (snd (handleMove ''g1'' ''uA'' net_only_turn_update 15 (ui_of playerA 0) (store_at 0)))) = [playerA, playerB] \<and>
   select_game_single True (snd (snd (handleMove ''g1'' ''uA'' net_only_turn_update 15 (ui_of playerA 0) (store_at 0)))) ''g1'' = Some (game_at 1)"
proof -
  let ?v = "\<lparr>v_currentPlayer = playerA, v_tempTransport = taxi, v_latestGame = game_at 0,
           v_currentTickets = 4\<rparr>"
  let ?r = "handleMove ''g1'' ''uA'' net_only_turn_update 15 (ui_of playerA 0) (store_at 0)"
  have v: "handleMove_validate ''g1'' net_only_turn_update (ui_of playerA 0) (store_at 0) =
     Inr (?v, (ui_of playerA 0)\<lparr>selectedTransport := None, availableMoves := []\<rparr>)"
    by (simp add: net_only_turn_update_def run_defs scenario_defs)
  have r: "?r = (fst ?r, fst (snd ?r), snd (snd ?r))"
    by simp
  have n: "ok_turn_update net_only_turn_update" "\<not> ok_insert net_only_turn_update"
    "\<not> ok_player_update net_only_turn_update"
    by (simp_all add: net_only_turn_update_def net_ok_def)
  have g: "(game_at 0)\<lparr>current_turn := current_turn (game_at 0) + 1\<rparr> = game_at 1"
    by (simp add: game_at_def)
  show ?thesis
    using v n g commit_reported_by_turn_advance_only [OF v r]
    by (simp add: store_at_def)
qed

text \<open>
  The select of the game reads the \<^verbatim>\<open>games\<close> table only, and a served commit leaves
  the fetched row there with the turn counter replaced.
\<close>

lemma select_game_single_cong:
  "tbl_games a = tbl_games b \<Longrightarrow> select_game_single ok a gameId = select_game_single ok b gameId"
  by (simp add: select_game_single_def)

lemma select_game_single_served:
  "select_game_single ok db gameId = Some g \<Longrightarrow> select_game_single True db gameId = Some g"
  by (auto simp: select_game_single_def split: if_splits)

lemma select_game_after_commit:
  assumes "select_game_single ok db gameId = Some lg" and "ok_turn_update net"
  shows "select_game_single True
           (snd (snd (handleMove_commit gameId userId net toPosition v ui db))) gameId =
         Some (lg\<lparr>current_turn := current_turn (v_latestGame v) + 1\<rparr>)"
proof -
  let ?db' = "snd (snd (handleMove_commit gameId userId net toPosition v ui db))"
  let ?n = "current_turn (v_latestGame v) + 1"
  have "tbl_games ?db' =
      tbl_games (db\<lparr>tbl_games := map (\<lambda>g. if g_id g = gameId then g\<lparr>current_turn := ?n\<rparr> else g)
                                    (tbl_games db)\<rparr>)"
    using assms(2) by (simp add: commit_games)
  then have "select_game_single True ?db' gameId =
      select_game_single True
        (db\<lparr>tbl_games := map (\<lambda>g. if g_id g = gameId then g\<lparr>current_turn := ?n\<rparr> else g)
                              (tbl_games db)\<rparr>) gameId"
    by (rule select_game_single_cong)
  also have "\<dots> = Some (lg\<lparr>current_turn := ?n\<rparr>)"
    by (rule select_game_after_advance [OF assms(1)])
  finally show ?thesis .
qed

text \<open>
  C2, as stated, fails: the update of \<^verbatim>\<open>games\<close> is filtered by the id alone. Two
  components that passed the checks at turn 4 both write: the second finds the counter
  at 5, is not rejected, and reports a completed move as the first did. The log holds two
  moves with turn number 4, and the counter stands at 5. A component that passed the
  checks at turn 4 and writes when the counter has reached 9 completes its move too, and
  sets the counter back to 5.
\<close>

theorem two_clients_both_succeed_counterexample:
  "handleMove_validate ''g1'' net_ok (ui_of playerA 4) (store_at 4) = Inr (v_race, ui_race) \<and>
   fst race_first = MoveCompleted \<and>
   map current_turn (tbl_games (snd (snd race_first))) = [5] \<and>
   fst race_second = MoveCompleted \<and>
   map turn_number (tbl_moves (snd (snd race_second))) = [4, 4] \<and>
   map to_position (tbl_moves (snd (snd race_second))) = [15, 16] \<and>
   map current_turn (tbl_games (snd (snd race_second))) = [5] \<and>
   map current_turn (tbl_games (store_at 9)) = [9] \<and>
   fst (handleMove_commit ''g1'' ''uA'' net_ok 15 v_race ui_race (store_at 9)) = MoveCompleted \<and>
   map current_turn
     (tbl_games (snd (snd (handleMove_commit ''g1'' ''uA'' net_ok 15 v_race ui_race (store_at 9))))) =
     [5]"
  by (simp add: race_second_def race_first_def v_race_def ui_race_def run_defs scenario_defs)

text \<open>
  C2, amended. The write that advances the turn sets the counter of the game to the
  fetched value plus one with no condition on the stored value: on every store that
  holds the game, whatever its counter has become since the fetch, a served update
  completes the move and leaves the counter at the fetched value plus one. No outcome
  stands for a lost race: of two clients that passed the checks against the same state
  of the store, the one that writes second succeeds as the first did whenever its update
  is served, both moves carry the same turn number, and the counter ends at the value
  read plus one.
\<close>

theorem turn_advance_unconditional:
  assumes "handleMove_validate gameId net1 ui1 db = Inr (v1, u1)"
    and "handleMove_validate gameId net2 ui2 db = Inr (v2, u2)"
    and "handleMove_commit gameId userId1 net1 to1 v1 u1 db = (t1, u1', db1)"
    and "handleMove_commit gameId userId2 net2 to2 v2 u2 db1 = (t2, u2', db2)"
    and "ok_turn_update net1" and "ok_turn_update net2"
  shows "t1 = MoveCompleted \<and> t2 = MoveCompleted \<and>
         v_latestGame v2 = v_latestGame v1 \<and>
         turn_number (move_record gameId to2 v2) = turn_number (move_record gameId to1 v1) \<and>
         select_game_single True db1 gameId =
           Some ((v_latestGame v1)\<lparr>current_turn := current_turn (v_latestGame v1) + 1\<rparr>) \<and>
         select_game_single True db2 gameId =
           Some ((v_latestGame v1)\<lparr>current_turn := current_turn (v_latestGame v1) + 1\<rparr>) \<and>
         (\<forall>stored g userId net toPosition u.
            select_game_single True stored gameId = Some g \<and> ok_turn_update net \<longrightarrow>
            fst (handleMove_commit gameId userId net toPosition v1 u stored) = MoveCompleted \<and>
            select_game_single True
              (snd (snd (handleMove_commit gameId userId net toPosition v1 u stored))) gameId =
              Some (g\<lparr>current_turn := current_turn (v_latestGame v1) + 1\<rparr>))"
proof -
  let ?lg = "v_latestGame v1"
  have g1: "select_game_single True db gameId = Some ?lg"
    by (rule select_game_single_served [OF handleMove_validate_Inr(4) [OF assms(1)]])
  have g2: "select_game_single True db gameId = Some (v_latestGame v2)"
    by (rule select_game_single_served [OF handleMove_validate_Inr(4) [OF assms(2)]])
  from g1 g2 have same: "v_latestGame v2 = ?lg"
    by simp
  have t1: "t1 = MoveCompleted"
    using commit_toast [of gameId userId1 net1 to1 v1 u1 db] assms(3,5) by simp
  have t2: "t2 = MoveCompleted"
    using commit_toast [of gameId userId2 net2 to2 v2 u2 db1] assms(4,6) by simp
  have db1: "db1 = snd (snd (handleMove_commit gameId userId1 net1 to1 v1 u1 db))"
    using assms(3) by simp
  have db2: "db2 = snd (snd (handleMove_commit gameId userId2 net2 to2 v2 u2 db1))"
    using assms(4) by simp
  have s1: "select_game_single True db1 gameId =
      Some (?lg\<lparr>current_turn := current_turn ?lg + 1\<rparr>)"
    unfolding db1 by (rule select_game_after_commit [OF g1 assms(5)])
  have "select_game_single True db2 gameId =
      Some (?lg\<lparr>current_turn := current_turn ?lg + 1\<rparr>\<lparr>current_turn := current_turn (v_latestGame v2) + 1\<rparr>)"
    unfolding db2 by (rule select_game_after_commit [OF s1 assms(6)])
  then have s2: "select_game_single True db2 gameId =
      Some (?lg\<lparr>current_turn := current_turn ?lg + 1\<rparr>)"
    using same by simp
  have late: "fst (handleMove_commit gameId userId net toPosition v1 u stored) = MoveCompleted \<and>
      select_game_single True
        (snd (snd (handleMove_commit gameId userId net toPosition v1 u stored))) gameId =
        Some (g\<lparr>current_turn := current_turn ?lg + 1\<rparr>)"
    if "select_game_single True stored gameId = Some g" and "ok_turn_update net"
    for stored g userId net toPosition u
  proof (intro conjI)
    show "fst (handleMove_commit gameId userId net toPosition v1 u stored) = MoveCompleted"
      using that(2) by (simp add: commit_toast)
    show "select_game_single True
        (snd (snd (handleMove_commit gameId userId net toPosition v1 u stored))) gameId =
        Some (g\<lparr>current_turn := current_turn ?lg + 1\<rparr>)"
      by (rule select_game_after_commit [OF that])
  qed
  have two: "t1 = MoveCompleted \<and> t2 = MoveCompleted \<and>
      v_latestGame v2 = ?lg \<and>
      turn_number (move_record gameId to2 v2) = turn_number (move_record gameId to1 v1) \<and>
      select_game_single True db1 gameId = Some (?lg\<lparr>current_turn := current_turn ?lg + 1\<rparr>) \<and>
      select_game_single True db2 gameId = Some (?lg\<lparr>current_turn := current_turn ?lg + 1\<rparr>)"
    using t1 t2 same s1 s2 by (simp add: move_record_def)
  show ?thesis
    using two late by blast
qed

text \<open>
  C2 on the two components of player A at turn 4, and on a write of the first when the
  stored counter has reached 9.
\<close>

theorem turn_advance_unconditional_witness:
  "handleMove_validate ''g1'' net_ok (ui_of playerA 4) (store_at 4) = Inr (v_race, ui_race) \<and>
   handleMove_commit ''g1'' ''uA'' net_ok 15 v_race ui_race (store_at 4) = race_first \<and>
   handleMove_commit ''g1'' ''uA'' net_ok 16 v_race ui_race (snd (snd race_first)) = race_second \<and>
   ok_turn_update net_ok \<and>
   fst race_first = MoveCompleted \<and> fst race_second = MoveCompleted \<and>
   select_game_single True (snd (snd race_first)) ''g1'' = Some (game_at 5) \<and>
   select_game_single True (snd (snd race_second)) ''g1'' = Some (game_at 5) \<and>
   select_game_single True (store_at 9) ''g1'' = Some (game_at 9) \<and>
   fst (handleMove_commit ''g1'' ''uA'' net_ok 15 v_race ui_race (store_at 9)) = MoveCompleted \<and>
   select_game_single True
     (snd (snd (handleMove_commit ''g1'' ''uA'' net_ok 15 v_race ui_race (store_at 9)))) ''g1'' =
     Some (game_at 5)"
proof -
  have v: "handleMove_validate ''g1'' net_ok (ui_of playerA 4) (store_at 4) = Inr (v_race, ui_race)"
    by (simp add: v_race_def ui_race_def run_defs scenario_defs)
  have c1: "handleMove_commit ''g1'' ''uA'' net_ok 15 v_race ui_race (store_at 4) =
      (fst race_first, fst (snd race_first), snd (snd race_first))"
    by (simp add: race_first_def)
  have c2: "handleMove_commit ''g1'' ''uA'' net_ok 16 v_race ui_race (snd (snd race_first)) =
      (fst race_second, fst (snd race_second), snd (snd race_second))"
    by (simp add: race_second_def)
  have ok: "ok_turn_update net_ok"
    by (simp add: net_ok_def)
  have g: "(v_latestGame v_race)\<lparr>current_turn := current_turn (v_latestGame v_race) + 1\<rparr> = game_at 5"
    by (simp add: v_race_def game_at_def)
  have g9: "(game_at 9)\<lparr>current_turn := current_turn (v_latestGame v_race) + 1\<rparr> = game_at 5"
    by (simp add: v_race_def game_at_def)
  have s9: "select_game_single True (store_at 9) ''g1'' = Some (game_at 9)"
    by (simp add: select_game_single_def store_at_def game_at_def)
  note inst = turn_advance_unconditional [OF v v c1 c2 ok ok]
  from inst have two: "fst race_first = MoveCompleted \<and> fst race_second = MoveCompleted \<and>
      select_game_single True (snd (snd race_first)) ''g1'' = Some (game_at 5) \<and>
      select_game_single True (snd (snd race_second)) ''g1'' = Some (game_at 5)"
    unfolding g by blast
  from inst s9 ok
  have late: "fst (handleMove_commit ''g1'' ''uA'' net_ok 15 v_race ui_race (store_at 9)) =
        MoveCompleted \<and>
      select_game_single True
        (snd (snd (handleMove_commit ''g1'' ''uA'' net_ok 15 v_race ui_race (store_at 9)))) ''g1'' =
        Some (game_at 5)"
    unfolding g9 [symmetric] by blast
  show ?thesis
    using v ok two late s9 by (simp add: race_first_def race_second_def)
qed

text \<open>
  C4, as stated, fails: when the update of \<^verbatim>\<open>games\<close> fails after the other two writes
  were served, the move is in the log, the player stands at the new node with one taxi
  ticket less, and the turn counter is still 0.
\<close>

theorem partial_commit_counterexample:
  "fst (handleMove ''g1'' ''uA'' net_turn_update_fails 15 (ui_of playerA 0) (store_at 0)) = FailedToMakeMove \<and>
   map to_position (tbl_moves (snd (snd (handleMove ''g1'' ''uA'' net_turn_update_fails 15 (ui_of playerA 0) (store_at 0))))) = [15] \<and>
   map current_position (tbl_players (snd (snd (handleMove ''g1'' ''uA'' net_turn_update_fails 15 (ui_of playerA 0) (store_at 0))))) = [15, 20] \<and>
   map taxi_tickets (tbl_players (snd (snd (handleMove ''g1'' ''uA'' net_turn_update_fails 15 (ui_of playerA 0) (store_at 0))))) = [3, 10] \<and>
   map current_turn (tbl_games (snd (snd (handleMove ''g1'' ''uA'' net_turn_update_fails 15 (ui_of playerA 0) (store_at 0))))) = [0]"
  by (simp add: net_turn_update_fails_def run_defs scenario_defs)

text \<open>
  C4, amended. The three writes are separate requests and none is undone. After the
  checks have passed and the insert and the update of \<^verbatim>\<open>players\<close> were served, the
  move and the new player row are in the store whether the turn advance is served or not:
  served, all three effects are there and the move is reported as completed; failed, the
  first two stay, the \<^verbatim>\<open>games\<close> table is as it was, the failure is reported and the
  transport selection is back.
\<close>

theorem writes_kept_without_rollback:
  assumes "handleMove_validate gameId net ui db = Inr (v, ui1)"
    and "handleMove gameId userId net toPosition ui db = (t, ui', db')"
    and "ok_insert net" and "ok_player_update net"
  shows "tbl_moves db' = tbl_moves db @ [move_record gameId toPosition v] \<and>
         tbl_players db' =
           map (\<lambda>p. if p_id p = p_id (v_currentPlayer v) then updates toPosition v p else p)
             (tbl_players db) \<and>
         (ok_turn_update net \<longrightarrow>
            t = MoveCompleted \<and>
            tbl_games db' =
              map (\<lambda>g. if g_id g = gameId
                        then g\<lparr>current_turn := current_turn (v_latestGame v) + 1\<rparr> else g)
                (tbl_games db)) \<and>
         (\<not> ok_turn_update net \<longrightarrow>
            t = FailedToMakeMove \<and> tbl_games db' = tbl_games db \<and>
            ui' = ui\<lparr>availableMoves := []\<rparr>)"
proof -
  let ?c = "handleMove_commit gameId userId net toPosition v ui1 db"
  have c: "?c = (t, ui', db')"
    using assms(1,2) by (simp add: handleMove_validated)
  then have t: "t = fst ?c" and ui': "ui' = fst (snd ?c)" and db': "db' = snd (snd ?c)"
    by simp_all
  have mv: "tbl_moves db' = tbl_moves db @ [move_record gameId toPosition v]"
    unfolding db' using assms(3) by (simp add: commit_moves)
  have pl: "tbl_players db' =
      map (\<lambda>p. if p_id p = p_id (v_currentPlayer v) then updates toPosition v p else p)
        (tbl_players db)"
    unfolding db' using assms(4) by (simp add: commit_players)
  have served: "t = MoveCompleted \<and>
      tbl_games db' =
        map (\<lambda>g. if g_id g = gameId
                  then g\<lparr>current_turn := current_turn (v_latestGame v) + 1\<rparr> else g)
          (tbl_games db)" if "ok_turn_update net"
    unfolding t db' using that by (simp add: commit_toast commit_games)
  have failed: "t = FailedToMakeMove \<and> tbl_games db' = tbl_games db \<and>
      ui' = ui\<lparr>availableMoves := []\<rparr>" if f: "\<not> ok_turn_update net"
  proof -
    have "ui' = ui1\<lparr>selectedTransport := Some (v_tempTransport v)\<rparr>"
      unfolding ui' using f by (rule commit_ui_failed)
    moreover have "ui1 = ui\<lparr>selectedTransport := None, availableMoves := []\<rparr>"
      by (rule handleMove_validate_Inr(8) [OF assms(1)])
    moreover have "selectedTransport ui = Some (v_tempTransport v)"
      by (rule handleMove_validate_Inr(2) [OF assms(1)])
    ultimately have "ui' = ui\<lparr>availableMoves := []\<rparr>"
      by simp
    then show ?thesis
      unfolding t db' using f by (simp add: commit_toast commit_games)
  qed
  show ?thesis
    using mv pl served failed by blast
qed

text \<open>
  C4 at turn 0 with the turn advance failing.
\<close>

theorem writes_kept_without_rollback_witness:
  "handleMove_validate ''g1'' net_turn_update_fails (ui_of playerA 0) (store_at 0) =
     Inr (\<lparr>v_currentPlayer = playerA, v_tempTransport = taxi, v_latestGame = game_at 0,
           v_currentTickets = 4\<rparr>,
          (ui_of playerA 0)\<lparr>selectedTransport := None, availableMoves := []\<rparr>) \<and>
   ok_insert net_turn_update_fails \<and> ok_player_update net_turn_update_fails \<and>
   \<not> ok_turn_update net_turn_update_fails \<and>
   fst (handleMove ''g1'' ''uA'' net_turn_update_fails 15 (ui_of playerA 0) (store_at 0)) = FailedToMakeMove \<and>
   length (tbl_moves (snd (snd (handleMove ''g1'' ''uA'' net_turn_update_fails 15 (ui_of playerA 0) (store_at 0))))) = 1 \<and>
   tbl_games (snd (snd (handleMove ''g1'' ''uA'' net_turn_update_fails 15 (ui_of playerA 0) (store_at 0)))) = [game_at 0]"
proof -
  let ?v = "\<lparr>v_currentPlayer = playerA, v_tempTransport = taxi, v_latestGame = game_at 0,
           v_currentTickets = 4\<rparr>"
  let ?r = "handleMove ''g1'' ''uA'' net_turn_update_fails 15 (ui_of playerA 0) (store_at 0)"
  have v: "handleMove_validate ''g1'' net_turn_update_fails (ui_of playerA 0) (store_at 0) =
     Inr (?v, (ui_of playerA 0)\<lparr>selectedTransport := None, availableMoves := []\<rparr>)"
    by (simp add: net_turn_update_fails_def run_defs scenario_defs)
  have r: "?r = (fst ?r, fst (snd ?r), snd (snd ?r))"
    by simp
  have n: "ok_insert net_turn_update_fails" "ok_player_update net_turn_update_fails"
    by (simp_all add: net_turn_update_fails_def net_ok_def)
  have f: "\<not> ok_turn_update net_turn_update_fails"
    by (simp add: net_turn_update_fails_def net_ok_def)
  show ?thesis
    using v n f writes_kept_without_rollback [OF v r n]
    by (simp add: store_at_def)
qed

text \<open>
  C5, as stated, fails: \<^verbatim>\<open>from_position\<close> is read from the player record the component
  holds, not from the store. With the stored row of A at node 12 and the held record at
  node 10, the committed move of A starts at node 10.
\<close>

theorem stale_from_position_counterexample:
  "currentPlayer (ui_of playerA 0) = Some playerA \<and> current_position playerA = 10 \<and>
   map p_id (tbl_players store_stale) = [''A'', ''B''] \<and>
   map current_position (tbl_players store_stale) = [12, 20] \<and>
   fst (handleMove ''g1'' ''uA'' net_ok 15 (ui_of playerA 0) store_stale) = MoveCompleted \<and>
   map player_id (tbl_moves (snd (snd (handleMove ''g1'' ''uA'' net_ok 15 (ui_of playerA 0) store_stale)))) = [''A''] \<and>
   map from_position (tbl_moves (snd (snd (handleMove ''g1'' ''uA'' net_ok 15 (ui_of playerA 0) store_stale)))) = [10]"
  by (simp add: run_defs scenario_defs playerA_stored_def store_stale_def)

text \<open>
  C5, amended. Whenever \<^verbatim>\<open>handleMove\<close>, run against one state of the store, adds a
  move, it adds one move of the mover to the game; its \<^verbatim>\<open>turn_number\<close> is the turn
  counter of the stored game at that state (the value fetched at the start of the call),
  and its \<^verbatim>\<open>from_position\<close> is the \<^verbatim>\<open>current_position\<close> of the player record that the
  component holds.
\<close>

theorem move_has_fetched_turn_and_held_position:
  assumes "handleMove gameId userId net toPosition ui db = (t, ui', db')"
    and "tbl_moves db' \<noteq> tbl_moves db"
  shows "\<exists>cp lg m. currentPlayer ui = Some cp \<and>
           select_game_single True db gameId = Some lg \<and>
           tbl_moves db' = tbl_moves db @ [m] \<and>
           m_game_id m = gameId \<and> player_id m = p_id cp \<and> to_position m = toPosition \<and>
           turn_number m = current_turn lg \<and>
           from_position m = current_position cp"
  using assms(1)
proof (cases rule: handleMove_cases)
  case rejected
  with assms(2) show ?thesis by simp
next
  case (validated v ui1)
  let ?m = "move_record gameId toPosition v"
  have db': "db' = snd (snd (handleMove_commit gameId userId net toPosition v ui1 db))"
    using validated(2) by simp
  have mvs: "tbl_moves db' = tbl_moves db @ [?m]"
    using assms(2) commit_moves [of gameId userId net toPosition v ui1 db] db'
    by (auto split: if_splits)
  have cp: "currentPlayer ui = Some (v_currentPlayer v)"
    by (rule handleMove_validate_Inr(1) [OF validated(1)])
  have lg: "select_game_single True db gameId = Some (v_latestGame v)"
    by (rule select_game_single_served [OF handleMove_validate_Inr(4) [OF validated(1)]])
  have m: "m_game_id ?m = gameId \<and> player_id ?m = p_id (v_currentPlayer v) \<and>
      to_position ?m = toPosition \<and> turn_number ?m = current_turn (v_latestGame v) \<and>
      from_position ?m = current_position (v_currentPlayer v)"
    by (simp add: move_record_def)
  show ?thesis
    using cp lg mvs m by blast
qed

text \<open>
  C5 at turn 0: the move of A has turn number 0 and starts at node 10.
\<close>

theorem move_has_fetched_turn_and_held_position_witness:
  "handleMove ''g1'' ''uA'' net_ok 15 (ui_of playerA 0) (store_at 0) =
     (MoveCompleted, fst (snd (handleMove ''g1'' ''uA'' net_ok 15 (ui_of playerA 0) (store_at 0))),
      snd (snd (handleMove ''g1'' ''uA'' net_ok 15 (ui_of playerA 0) (store_at 0)))) \<and>
   tbl_moves (snd (snd (handleMove ''g1'' ''uA'' net_ok 15 (ui_of playerA 0) (store_at 0)))) \<noteq> tbl_moves (store_at 0) \<and>
   map turn_number (tbl_moves (snd (snd (handleMove ''g1'' ''uA'' net_ok 15 (ui_of playerA 0) (store_at 0))))) = [0] \<and>
   map from_position (tbl_moves (snd (snd (handleMove ''g1'' ''uA'' net_ok 15 (ui_of playerA 0) (store_at 0))))) = [10]"
  using move_has_fetched_turn_and_held_position
    [of "''g1''" "''uA''" net_ok 15 "ui_of playerA 0" "store_at 0" MoveCompleted]
  by (simp add: run_defs scenario_defs)

text \<open>
  C3, as stated, fails: the ticket check reads the player record the component holds.
  The freshly fetched row of A has no taxi ticket, the held record has 4: the move is
  not rejected, it completes, and the stored count becomes 3.
\<close>

theorem ticket_check_on_held_record_counterexample:
  "select_players True store_stale ''g1'' = Some [playerA_stored, playerB] \<and>
   ticketField taxi playerA_stored = 0 \<and>
   selectedTransport (ui_of playerA 0) = Some taxi \<and>
   fst (handleMove ''g1'' ''uA'' net_ok 15 (ui_of playerA 0) store_stale) = MoveCompleted \<and>
   map taxi_tickets (tbl_players (snd (snd (handleMove ''g1'' ''uA'' net_ok 15 (ui_of playerA 0) store_stale)))) = [3, 10]"
  by (simp add: run_defs scenario_defs playerA_stored_def store_stale_def)

text \<open>
  C3, amended. In the validation step, after the turn-ownership check on the freshly
  fetched game and roster has passed, the ticket check for the chosen kind is evaluated
  on the player record the component holds, whatever the fetched rows count: with a held
  count of 0 or less the move is rejected for lack of tickets, nothing is written and
  the transport selection is restored; with a positive held count the checks pass.
\<close>

theorem ticket_check_on_held_record:
  assumes "currentPlayer ui = Some cp" and "selectedTransport ui = Some k" and "game ui = Some g"
    and "select_game_single (ok_game net) db gameId = Some lg"
    and "select_players (ok_players net) db gameId = Some ps"
    and "activePlayer (sortedPlayers_handleMove ps) (current_turn lg) = Some ap"
    and "p_id cp = p_id ap"
  shows "(ticketField k cp \<le> 0 \<longrightarrow>
            handleMove gameId userId net toPosition ui db =
              (NoTicketsLeft, ui\<lparr>selectedTransport := Some k, availableMoves := []\<rparr>, db)) \<and>
         (0 < ticketField k cp \<longrightarrow>
            handleMove_validate gameId net ui db =
              Inr (\<lparr>v_currentPlayer = cp, v_tempTransport = k, v_latestGame = lg,
                    v_currentTickets = ticketField k cp\<rparr>,
                   ui\<lparr>selectedTransport := None, availableMoves := []\<rparr>))"
  using assms by (simp add: handleMove_def handleMove_validate_def Let_def)

text \<open>
  C3 with a held record that has no taxi ticket while the stored row has 4: rejected.
\<close>

theorem ticket_check_on_held_record_witness:
  "currentPlayer (ui_of playerA_stored 0) = Some playerA_stored \<and>
   selectedTransport (ui_of playerA_stored 0) = Some taxi \<and>
   game (ui_of playerA_stored 0) = Some (game_at 0) \<and>
   select_game_single (ok_game net_ok) (store_at 0) ''g1'' = Some (game_at 0) \<and>
   select_players (ok_players net_ok) (store_at 0) ''g1'' = Some [playerA, playerB] \<and>
   activePlayer (sortedPlayers_handleMove [playerA, playerB]) (current_turn (game_at 0)) = Some playerA \<and>
   p_id playerA_stored = p_id playerA \<and>
   ticketField taxi playerA_stored \<le> 0 \<and> 0 < ticketField taxi playerA \<and>
   handleMove ''g1'' ''uA'' net_ok 15 (ui_of playerA_stored 0) (store_at 0) =
     (NoTicketsLeft, (ui_of playerA_stored 0)\<lparr>selectedTransport := Some taxi, availableMoves := []\<rparr>,
      store_at 0)"
proof -
  have h: "currentPlayer (ui_of playerA_stored 0) = Some playerA_stored"
    "selectedTransport (ui_of playerA_stored 0) = Some taxi"
    "game (ui_of playerA_stored 0) = Some (game_at 0)"
    "select_game_single (ok_game net_ok) (store_at 0) ''g1'' = Some (game_at 0)"
    "select_players (ok_players net_ok) (store_at 0) ''g1'' = Some [playerA, playerB]"
    "activePlayer (sortedPlayers_handleMove [playerA, playerB]) (current_turn (game_at 0)) = Some playerA"
    "p_id playerA_stored = p_id playerA"
    by (simp_all add: run_defs scenario_defs playerA_stored_def)
  have c: "ticketField taxi playerA_stored \<le> 0" "0 < ticketField taxi playerA"
    by (simp_all add: scenario_defs playerA_stored_def)
  show ?thesis
    using h c ticket_check_on_held_record [OF h, of "''uA''" 15]
    by simp
qed

text \<open>
  Reading a ticket field after the \<^verbatim>\<open>updates\<close> object was applied.
\<close>

lemma ticketField_set_ticketField:
  "ticketField j (set_ticketField k x p) = (if j = k then x else ticketField j p)"
  by (cases j; cases k) simp_all

lemma ticketField_position: "ticketField j (p\<lparr>current_position := c\<rparr>) = ticketField j p"
  by (cases j) simp_all

text \<open>
  The start of a game leaves the fetched row in the table with the status replaced.
\<close>

lemma select_game_after_start:
  assumes "select_game_single ok db gameId = Some lg"
  shows "select_game_single True
           (db\<lparr>tbl_games := map (\<lambda>g. if g_id g = gameId then g\<lparr>status := s\<rparr> else g) (tbl_games db)\<rparr>)
           gameId = Some (lg\<lparr>status := s\<rparr>)"
proof -
  have f: "filter (\<lambda>g. g_id g = gameId) (tbl_games db) = [lg]"
    using select_game_single_Some [OF assms] by simp
  have "filter (\<lambda>g. g_id g = gameId)
          (map (\<lambda>g. if g_id g = gameId then g\<lparr>status := s\<rparr> else g) (tbl_games db)) =
        map (\<lambda>g. g\<lparr>status := s\<rparr>) (filter (\<lambda>g. g_id g = gameId) (tbl_games db))"
    by (rule filter_map_patch) simp
  with f show ?thesis
    by (simp add: select_game_single_def)
qed

text \<open>
  C8, as stated, fails: the count that decides is the one the component holds. It is A's
  turn, the stored row of A has no underground ticket, the held record has 3: the move
  does not fail for lack of tickets, it completes, and the stored counter goes from 0
  to 2, the held count minus one, not down by one from a positive count.
\<close>

theorem debit_from_held_count_counterexample:
  "activePlayer (sortedPlayers_handleMove [playerA_spent, playerB]) (current_turn (game_at 0)) =
     Some playerA_spent \<and>
   p_id playerA_spent = p_id playerA \<and>
   map (ticketField underground) (tbl_players store_spent) = [0, 4] \<and>
   currentPlayer ui_underground = Some playerA \<and>
   selectedTransport ui_underground = Some underground \<and>
   ticketField underground playerA = 3 \<and>
   fst (handleMove ''g1'' ''uA'' net_ok 15 ui_underground store_spent) = MoveCompleted \<and>
   map (ticketField underground)
     (tbl_players (snd (snd (handleMove ''g1'' ''uA'' net_ok 15 ui_underground store_spent)))) =
     [2, 4]"
  by (simp add: run_defs scenario_defs playerA_spent_def store_spent_def ui_underground_def)

text \<open>
  C8, amended. The count is the one of the player record the component holds. With a
  held count of 0 or less, \<^verbatim>\<open>handleMove\<close> writes nothing and never reports a completed
  move, and it fails for lack of tickets whenever both fetches are served and the mover
  is the active player. When the \<^verbatim>\<open>players\<close> table changes, the held count was
  positive and the change is the \<^verbatim>\<open>updates\<close> object on the mover's row: the new
  position, the matching counter set to the held count minus one, every other counter
  as it was. Hence counters that were not negative in the store are not negative after.
\<close>

theorem debit_never_negative:
  assumes "handleMove gameId userId net toPosition ui db = (t, ui', db')"
    and "currentPlayer ui = Some cp" and "selectedTransport ui = Some k"
  shows "(ticketField k cp \<le> 0 \<longrightarrow> db' = db \<and> t \<noteq> MoveCompleted) \<and>
         (ticketField k cp \<le> 0 \<and> game ui \<noteq> None \<and>
          (\<exists>lg ps ap. select_game_single (ok_game net) db gameId = Some lg \<and>
             select_players (ok_players net) db gameId = Some ps \<and>
             activePlayer (sortedPlayers_handleMove ps) (current_turn lg) = Some ap \<and>
             p_id cp = p_id ap) \<longrightarrow> t = NoTicketsLeft) \<and>
         (tbl_players db' \<noteq> tbl_players db \<longrightarrow>
            0 < ticketField k cp \<and>
            tbl_players db' =
              map (\<lambda>p. if p_id p = p_id cp
                        then set_ticketField k (ticketField k cp - 1)
                               (p\<lparr>current_position := toPosition\<rparr>)
                        else p) (tbl_players db)) \<and>
         (\<forall>j p. ticketField j (set_ticketField k (ticketField k cp - 1)
                                 (p\<lparr>current_position := toPosition\<rparr>)) =
                  (if j = k then ticketField k cp - 1 else ticketField j p)) \<and>
         (\<forall>j. (\<forall>p \<in> set (tbl_players db). 0 \<le> ticketField j p) \<longrightarrow>
               (\<forall>p \<in> set (tbl_players db'). 0 \<le> ticketField j p))"
  using assms(1)
proof (cases rule: handleMove_cases)
  case rejected
  have t: "t \<noteq> MoveCompleted"
    by (rule handleMove_validate_Inl [OF rejected(1)])
  have nt: "t = NoTicketsLeft"
    if "ticketField k cp \<le> 0" and "game ui \<noteq> None"
      and "\<exists>lg ps ap. select_game_single (ok_game net) db gameId = Some lg \<and>
             select_players (ok_players net) db gameId = Some ps \<and>
             activePlayer (sortedPlayers_handleMove ps) (current_turn lg) = Some ap \<and>
             p_id cp = p_id ap"
    using that rejected(1) assms(2,3)
    by (auto simp: handleMove_validate_def Let_def)
  show ?thesis
    using t nt rejected(2)
    by (auto simp: ticketField_set_ticketField ticketField_position)
next
  case (validated v ui1)
  have cp: "v_currentPlayer v = cp"
    using handleMove_validate_Inr(1) [OF validated(1)] assms(2) by simp
  have k: "v_tempTransport v = k"
    using handleMove_validate_Inr(2) [OF validated(1)] assms(3) by simp
  have ct: "v_currentTickets v = ticketField k cp"
    using handleMove_validate_Inr(6) [OF validated(1)] cp k by simp
  have pos: "0 < ticketField k cp"
    using handleMove_validate_Inr(7) [OF validated(1)] ct by simp
  have db': "db' = snd (snd (handleMove_commit gameId userId net toPosition v ui1 db))"
    using validated(2) by simp
  have upd: "updates toPosition v =
      (\<lambda>p. set_ticketField k (ticketField k cp - 1) (p\<lparr>current_position := toPosition\<rparr>))"
    by (rule ext) (simp add: updates_def k ct)
  have pl: "tbl_players db' =
      (if ok_player_update net
       then map (\<lambda>p. if p_id p = p_id cp
                      then set_ticketField k (ticketField k cp - 1)
                             (p\<lparr>current_position := toPosition\<rparr>)
                      else p) (tbl_players db)
       else tbl_players db)"
    unfolding db' commit_players cp upd ..
  have changed: "tbl_players db' =
      map (\<lambda>p. if p_id p = p_id cp
                then set_ticketField k (ticketField k cp - 1)
                       (p\<lparr>current_position := toPosition\<rparr>)
                else p) (tbl_players db)"
    if "tbl_players db' \<noteq> tbl_players db"
    using that pl by (simp split: if_splits)
  have nonneg: "\<forall>p \<in> set (tbl_players db'). 0 \<le> ticketField j p"
    if "\<forall>p \<in> set (tbl_players db). 0 \<le> ticketField j p" for j
    using that pl pos
    by (auto simp: ticketField_set_ticketField ticketField_position split: if_splits)
  show ?thesis
    using pos changed nonneg
    by (auto simp: ticketField_set_ticketField ticketField_position)
qed

text \<open>
  C8 at turn 0: A pays one taxi ticket of 4, and no count is negative after.
\<close>

theorem debit_never_negative_witness:
  "handleMove ''g1'' ''uA'' net_ok 15 (ui_of playerA 0) (store_at 0) =
     (MoveCompleted, fst (snd (handleMove ''g1'' ''uA'' net_ok 15 (ui_of playerA 0) (store_at 0))),
      snd (snd (handleMove ''g1'' ''uA'' net_ok 15 (ui_of playerA 0) (store_at 0)))) \<and>
   currentPlayer (ui_of playerA 0) = Some playerA \<and>
   selectedTransport (ui_of playerA 0) = Some taxi \<and>
   tbl_players (snd (snd (handleMove ''g1'' ''uA'' net_ok 15 (ui_of playerA 0) (store_at 0)))) \<noteq> tbl_players (store_at 0) \<and>
   map (ticketField taxi) (tbl_players (store_at 0)) = [4, 10] \<and>
   0 < ticketField taxi playerA \<and>
   tbl_players (snd (snd (handleMove ''g1'' ''uA'' net_ok 15 (ui_of playerA 0) (store_at 0)))) =
     [playerA\<lparr>current_position := 15, taxi_tickets := 3\<rparr>, playerB] \<and>
   list_all (\<lambda>p. 0 \<le> ticketField taxi p)
     (tbl_players (snd (snd (handleMove ''g1'' ''uA'' net_ok 15 (ui_of playerA 0) (store_at 0)))))"
proof -
  let ?r = "handleMove ''g1'' ''uA'' net_ok 15 (ui_of playerA 0) (store_at 0)"
  have r: "?r = (MoveCompleted, fst (snd ?r), snd (snd ?r))"
    by (simp add: run_defs scenario_defs)
  have h: "currentPlayer (ui_of playerA 0) = Some playerA"
    "selectedTransport (ui_of playerA 0) = Some taxi"
    by (simp_all add: scenario_defs)
  have ch: "tbl_players (snd (snd ?r)) \<noteq> tbl_players (store_at 0)"
    by (simp add: run_defs scenario_defs)
  have before: "map (ticketField taxi) (tbl_players (store_at 0)) = [4, 10]"
    by (simp add: scenario_defs)
  have nn: "\<forall>p \<in> set (tbl_players (store_at 0)). 0 \<le> ticketField taxi p"
    by (simp add: scenario_defs)
  have pl: "map (\<lambda>p. if p_id p = p_id playerA
                then set_ticketField taxi (ticketField taxi playerA - 1)
                       (p\<lparr>current_position := 15\<rparr>)
                else p) (tbl_players (store_at 0)) =
      [playerA\<lparr>current_position := 15, taxi_tickets := 3\<rparr>, playerB]"
    by (simp add: scenario_defs)
  note inst = debit_never_negative [OF r h]
  from inst have changed: "tbl_players (snd (snd ?r)) \<noteq> tbl_players (store_at 0) \<longrightarrow>
      0 < ticketField taxi playerA \<and>
      tbl_players (snd (snd ?r)) =
        map (\<lambda>p. if p_id p = p_id playerA
                  then set_ticketField taxi (ticketField taxi playerA - 1)
                         (p\<lparr>current_position := 15\<rparr>)
                  else p) (tbl_players (store_at 0))"
    by blast
  from inst have kept: "(\<forall>p \<in> set (tbl_players (store_at 0)). 0 \<le> ticketField taxi p) \<longrightarrow>
      (\<forall>p \<in> set (tbl_players (snd (snd ?r))). 0 \<le> ticketField taxi p)"
    by blast
  from changed ch have pos: "0 < ticketField taxi playerA"
    and new: "tbl_players (snd (snd ?r)) =
      [playerA\<lparr>current_position := 15, taxi_tickets := 3\<rparr>, playerB]"
    unfolding pl by blast+
  from kept nn have "\<forall>p \<in> set (tbl_players (snd (snd ?r))). 0 \<le> ticketField taxi p"
    by blast
  then have nn': "list_all (\<lambda>p. 0 \<le> ticketField taxi p) (tbl_players (snd (snd ?r)))"
    by (simp only: list_all_iff)
  show ?thesis
    using r h ch before pos new nn' by blast
qed

text \<open>
  C9, as stated, fails: the result of the update is not read and the update is filtered
  by the id alone. When the store rejects the update, the start is reported and the
  stored game is still waiting. When the held game is waiting but the stored game has
  finished, the served update takes the stored game from finished to in progress.
\<close>

theorem start_reported_without_transition_counterexample:
  "clickStartGame collate ''g1'' ''uA'' False ui_waiting store_waiting =
     (GameStarted, store_waiting) \<and>
   map status (tbl_games store_waiting) = [waiting] \<and>
   map status (tbl_games store_finished) = [finished] \<and>
   fst (clickStartGame collate ''g1'' ''uA'' True ui_waiting store_finished) = GameStarted \<and>
   map status (tbl_games (snd (clickStartGame collate ''g1'' ''uA'' True ui_waiting store_finished))) =
     [in_progress]"
  by (simp add: clickStartGame_def startGame_def startGameButton_def activePlayer_render_def
      sortedPlayers_render_def timestamp_alphabet_def ui_waiting_def store_waiting_def
      store_finished_def game_waiting_def run_defs scenario_defs)

text \<open>
  C9, amended. A click on Start Game reports a started game only when the roster the
  component holds has at least 2 players and the button is shown, that is, the game the
  component holds is waiting and the viewer is its \<^verbatim>\<open>mr_x_player\<close>. When the update is
  then served, the stored game is in progress, whatever its stored status was. The store
  changes in no other case: with fewer than 2 players nothing changes and no start is
  reported, and players and moves are never touched.
\<close>

theorem startGame_guarded:
  assumes "clickStartGame cmp gameId userId ok ui db = (t, db')"
  shows "(t = GameStarted \<longrightarrow>
            2 \<le> length (players ui) \<and>
            (\<exists>g. game ui = Some g \<and> status g = waiting \<and> mr_x_player g = Some userId)) \<and>
         (t = GameStarted \<and> ok \<longrightarrow>
            tbl_games db' =
              map (\<lambda>g. if g_id g = gameId then g\<lparr>status := in_progress\<rparr> else g) (tbl_games db) \<and>
            (\<forall>lg. select_game_single True db gameId = Some lg \<longrightarrow>
               select_game_single True db' gameId = Some (lg\<lparr>status := in_progress\<rparr>))) \<and>
         (db' \<noteq> db \<longrightarrow> t = GameStarted \<and> ok) \<and>
         (length (players ui) < 2 \<longrightarrow> db' = db \<and> t \<noteq> GameStarted) \<and>
         tbl_players db' = tbl_players db \<and> tbl_moves db' = tbl_moves db"
proof (cases "startGameButton cmp userId ui \<and> 2 \<le> length (players ui)")
  case False
  then have "db' = db \<and> t \<noteq> GameStarted"
    using assms by (auto simp: clickStartGame_def startGame_def split: if_splits)
  then show ?thesis
    by simp
next
  case True
  then have t: "t = GameStarted"
    and db': "db' = update_games ok (\<lambda>g. g\<lparr>status := in_progress\<rparr>) gameId db"
    using assms by (auto simp: clickStartGame_def startGame_def split: if_splits)
  from True have g: "\<exists>g. game ui = Some g \<and> status g = waiting \<and> mr_x_player g = Some userId"
    by (auto simp: startGameButton_def split: option.splits)
  have sel: "select_game_single True db' gameId = Some (lg\<lparr>status := in_progress\<rparr>)"
    if "ok" and "select_game_single True db gameId = Some lg" for lg
    using select_game_after_start [OF that(2), of in_progress] that(1)
    by (simp add: db' update_games_def)
  have same: "db' = db" if "\<not> ok"
    using that by (simp add: db' update_games_def)
  show ?thesis
    using True t g sel same by (auto simp: db' update_games_def)
qed

text \<open>
  C9 on the waiting game: A, its \<^verbatim>\<open>mr_x_player\<close>, starts it; B has no button; with A
  alone in the roster the start is refused; on the store where the game has finished
  the served update leaves it in progress.
\<close>

theorem startGame_guarded_witness:
  "clickStartGame collate ''g1'' ''uA'' True ui_waiting store_waiting =
     (GameStarted, store_waiting\<lparr>tbl_games := [game_at 0]\<rparr>) \<and>
   2 \<le> length (players ui_waiting) \<and>
   game ui_waiting = Some game_waiting \<and> status game_waiting = waiting \<and>
   mr_x_player game_waiting = Some ''uA'' \<and>
   select_game_single True store_waiting ''g1'' = Some game_waiting \<and>
   select_game_single True (store_waiting\<lparr>tbl_games := [game_at 0]\<rparr>) ''g1'' = Some (game_at 0) \<and>
   status (game_at 0) = in_progress \<and>
   clickStartGame collate ''g1'' ''uB'' True (ui_waiting\<lparr>currentPlayer := Some playerB\<rparr>)
     store_waiting = (NoToast, store_waiting) \<and>
   clickStartGame collate ''g1'' ''uA'' True (ui_waiting\<lparr>players := [playerA]\<rparr>) store_waiting =
     (NeedTwoPlayers, store_waiting) \<and>
   select_game_single True store_finished ''g1'' = Some (game_waiting\<lparr>status := finished\<rparr>) \<and>
   select_game_single True
     (snd (clickStartGame collate ''g1'' ''uA'' True ui_waiting store_finished)) ''g1'' =
     Some (game_at 0)"
proof -
  have r: "clickStartGame collate ''g1'' ''uA'' True ui_waiting store_waiting =
     (GameStarted, store_waiting\<lparr>tbl_games := [game_at 0]\<rparr>)"
    by (simp add: clickStartGame_def startGame_def startGameButton_def activePlayer_render_def
        sortedPlayers_render_def timestamp_alphabet_def ui_waiting_def store_waiting_def
        game_waiting_def run_defs scenario_defs)
  have r2: "clickStartGame collate ''g1'' ''uB'' True (ui_waiting\<lparr>currentPlayer := Some playerB\<rparr>)
      store_waiting = (NoToast, store_waiting)"
    by (simp add: clickStartGame_def startGame_def startGameButton_def activePlayer_render_def
        sortedPlayers_render_def timestamp_alphabet_def ui_waiting_def store_waiting_def
        game_waiting_def run_defs scenario_defs)
  have r3: "clickStartGame collate ''g1'' ''uA'' True (ui_waiting\<lparr>players := [playerA]\<rparr>)
      store_waiting = (NeedTwoPlayers, store_waiting)"
    by (simp add: clickStartGame_def startGame_def startGameButton_def activePlayer_render_def
        sortedPlayers_render_def timestamp_alphabet_def ui_waiting_def store_waiting_def
        game_waiting_def run_defs scenario_defs)
  have r4: "clickStartGame collate ''g1'' ''uA'' True ui_waiting store_finished =
      (GameStarted, snd (clickStartGame collate ''g1'' ''uA'' True ui_waiting store_finished))"
    by (simp add: clickStartGame_def startGame_def startGameButton_def activePlayer_render_def
        sortedPlayers_render_def timestamp_alphabet_def ui_waiting_def store_finished_def
        game_waiting_def run_defs scenario_defs)
  have s: "select_game_single True store_waiting ''g1'' = Some game_waiting"
    by (simp add: select_game_single_def store_waiting_def game_waiting_def game_at_def)
  have s4: "select_game_single True store_finished ''g1'' =
      Some (game_waiting\<lparr>status := finished\<rparr>)"
    by (simp add: select_game_single_def store_finished_def game_waiting_def game_at_def)
  have g: "game_waiting\<lparr>status := in_progress\<rparr> = game_at 0"
    by (simp add: game_waiting_def game_at_def)
  have g4: "game_waiting\<lparr>status := finished, status := in_progress\<rparr> = game_at 0"
    by (simp add: game_waiting_def game_at_def)
  have m: "map (\<lambda>g. if g_id g = ''g1'' then g\<lparr>status := in_progress\<rparr> else g)
      (tbl_games store_waiting) = [game_at 0]"
    by (simp add: store_waiting_def game_waiting_def game_at_def)
  from startGame_guarded [OF r]
  have n: "2 \<le> length (players ui_waiting)"
    and a: "select_game_single True (store_waiting\<lparr>tbl_games := [game_at 0]\<rparr>) ''g1'' =
        Some (game_waiting\<lparr>status := in_progress\<rparr>)"
    using s by (simp_all add: m)
  from startGame_guarded [OF r4] s4
  have a4: "select_game_single True
      (snd (clickStartGame collate ''g1'' ''uA'' True ui_waiting store_finished)) ''g1'' =
      Some (game_at 0)"
    unfolding g4 [symmetric] by blast
  have u: "game ui_waiting = Some game_waiting" "status game_waiting = waiting"
    "mr_x_player game_waiting = Some ''uA''" "status (game_at 0) = in_progress"
    by (simp_all add: ui_waiting_def game_waiting_def game_at_def)
  show ?thesis
    using r r2 r3 s s4 n a a4 u unfolding g by blast
qed

end
